theory Spec2Isabelle
  imports Complex_Main
begin

section \<open>Strings as the orchestration code uses them\<close>

text \<open>
  Python strings are modelled as \<^typ>\<open>string\<close> (byte strings). \<open>str.lower()\<close> is
  modelled on the ASCII letters, which is where every keyword of the classifier lives;
  \<open>w in s\<close> is the substring test.
\<close>

definition upper_lower :: "(char \<times> char) list" where
  "upper_lower = zip ''ABCDEFGHIJKLMNOPQRSTUVWXYZ'' ''abcdefghijklmnopqrstuvwxyz''"

definition lower_char :: "char \<Rightarrow> char" where
  "lower_char c = (case map_of upper_lower c of Some d \<Rightarrow> d | None \<Rightarrow> c)"

definition py_lower :: "string \<Rightarrow> string" where
  "py_lower s = map lower_char s"

definition startswith :: "string \<Rightarrow> string \<Rightarrow> bool" where
  "startswith s w = (take (length w) s = w)"

text \<open>\<open>contains s w\<close> is Python's \<open>w in s\<close>.\<close>

fun contains :: "string \<Rightarrow> string \<Rightarrow> bool" where
  "contains [] w = (w = [])"
| "contains (c # cs) w = (startswith (c # cs) w \<or> contains cs w)"

text \<open>\<open>any(word in s for word in words)\<close>.\<close>

definition any_in :: "string list \<Rightarrow> string \<Rightarrow> bool" where
  "any_in ws s = list_ex (contains s) ws"

section \<open>Query Classifier (analytics\_service.classify\_query\_type)\<close>

definition classify_query_type :: "string \<Rightarrow> string" where
  "classify_query_type query =
     (let query_lower = py_lower query in
      if any_in [''trend'', ''over time'', ''timeline'', ''change'', ''growth''] query_lower
        then ''trend_analysis''
      else if any_in [''compare'', ''vs'', ''versus'', ''difference'', ''between''] query_lower
        then ''comparison''
      else if any_in [''summary'', ''overview'', ''summarize'', ''total'', ''average''] query_lower
        then ''summary''
      else if any_in [''predict'', ''forecast'', ''future'', ''projection''] query_lower
        then ''prediction''
      else ''general'')"

text \<open>
  The classifier as the specification words it: a priority table of keyword sets, tested
  in order on the lower-cased text, the first match winning, with a default.
\<close>

definition keyword_priority :: "(string list \<times> string) list" where
  "keyword_priority =
     [([''trend'', ''over time'', ''timeline'', ''change'', ''growth''], ''trend_analysis''),
      ([''compare'', ''vs'', ''versus'', ''difference'', ''between''], ''comparison''),
      ([''summary'', ''overview'', ''summarize'', ''total'', ''average''], ''summary''),
      ([''predict'', ''forecast'', ''future'', ''projection''], ''prediction'')]"

fun first_match :: "(string list \<times> string) list \<Rightarrow> string \<Rightarrow> string" where
  "first_match [] s = ''general''"
| "first_match ((ws, t) # rest) s = (if any_in ws s then t else first_match rest s)"

definition classify_spec :: "string \<Rightarrow> string" where
  "classify_spec query = first_match keyword_priority (py_lower query)"

section \<open>More string operations\<close>

definition nl :: string where
  "nl = [CHR 0x0A]"

definition is_space :: "char \<Rightarrow> bool" where
  "is_space c = (c \<in> set [CHR 0x09, CHR 0x0A, CHR 0x0B, CHR 0x0C, CHR 0x0D,
                            CHR 0x1C, CHR 0x1D, CHR 0x1E, CHR 0x1F, CHR 0x20])"

text \<open>\<open>s.strip()\<close>.\<close>

definition strip :: "string \<Rightarrow> string" where
  "strip s = rev (dropWhile is_space (rev (dropWhile is_space s)))"

text \<open>\<open>s.endswith(w)\<close>.\<close>

definition endswith :: "string \<Rightarrow> string \<Rightarrow> bool" where
  "endswith s w = startswith (rev s) (rev w)"

text \<open>
  \<open>s.split(sep)\<close> for a non-empty separator, scanning left to right; \<open>acc\<close> holds the
  current piece reversed. Every call in the source passes a literal, non-empty separator.
\<close>

fun split_acc :: "string \<Rightarrow> string \<Rightarrow> string \<Rightarrow> string list" where
  "split_acc sep acc [] = [rev acc]"
| "split_acc sep acc (c # cs) =
     (if startswith (c # cs) sep
      then rev acc # split_acc sep [] (drop (length sep - 1) cs)
      else split_acc sep (c # acc) cs)"

definition py_split :: "string \<Rightarrow> string \<Rightarrow> string list" where
  "py_split s sep = split_acc sep [] s"

text \<open>\<open>str(n)\<close> for a non-negative integer such as a \<open>len\<close>.\<close>

fun str_nat :: "nat \<Rightarrow> string" where
  "str_nat n = (if n < 10 then [''0123456789'' ! n]
                else str_nat (n div 10) @ [''0123456789'' ! (n mod 10)])"

text \<open>
  A triple-quoted literal of the source: a newline, then every line behind the
  indentation of the enclosing block (blank lines carry it too), then the indentation
  before the closing quotes.
\<close>

definition block :: "nat \<Rightarrow> string list \<Rightarrow> string" where
  "block ind ls = nl @ concat (map (\<lambda>l. replicate ind CHR 0x20 @ l @ nl) ls)
                    @ replicate ind CHR 0x20"

section \<open>Python values, exceptions, documents\<close>

text \<open>
  The values that flow through the state are Python values: what \<open>json.loads\<close>
  returns and what table metadata carries is not constrained by the annotations. A
  dictionary is an association list in insertion order, looked up by \<^const>\<open>map_of\<close>.
\<close>

datatype pyval = PNone | PBool bool | PInt int | PFloat real | PStr string
  | PList "pyval list" | PDict "(string \<times> pyval) list"

type_synonym pydict = "(string \<times> pyval) list"

text \<open>An exception is kept as its message \<open>str(e)\<close>.\<close>

datatype exn = Exn string

record document =
  page_content :: string
  metadata :: pydict

definition dict_get :: "pydict \<Rightarrow> string \<Rightarrow> pyval \<Rightarrow> pyval" where
  "dict_get d k dflt = (case map_of d k of Some v \<Rightarrow> v | None \<Rightarrow> dflt)"

fun dict_set :: "pydict \<Rightarrow> string \<Rightarrow> pyval \<Rightarrow> pydict" where
  "dict_set [] k v = [(k, v)]"
| "dict_set ((k', v') # d) k v =
     (if k' = k then (k, v) # d else (k', v') # dict_set d k v)"

definition dict_update :: "pydict \<Rightarrow> pydict \<Rightarrow> pydict" where
  "dict_update d e = foldl (\<lambda>acc kv. dict_set acc (fst kv) (snd kv)) d e"

fun type_name :: "pyval \<Rightarrow> string" where
  "type_name PNone = ''NoneType''"
| "type_name (PBool b) = ''bool''"
| "type_name (PInt i) = ''int''"
| "type_name (PFloat x) = ''float''"
| "type_name (PStr s) = ''str''"
| "type_name (PList vs) = ''list''"
| "type_name (PDict kvs) = ''dict''"

definition attr_error :: "pyval \<Rightarrow> string \<Rightarrow> exn" where
  "attr_error v a = Exn ([CHR 0x27] @ type_name v @ [CHR 0x27] @ '' object has no attribute ''
                         @ [CHR 0x27] @ a @ [CHR 0x27])"

definition type_error :: "string \<Rightarrow> exn" where
  "type_error m = Exn m"

text \<open>\<open>d.keys()\<close> and \<open>d.items()\<close>: only a dictionary has them.\<close>

fun dict_keys :: "string \<Rightarrow> pyval \<Rightarrow> exn + string list" where
  "dict_keys a (PDict kvs) = Inr (map fst kvs)"
| "dict_keys a v = Inl (attr_error v a)"

text \<open>\<open>len(v)\<close>.\<close>

fun py_len :: "pyval \<Rightarrow> exn + nat" where
  "py_len (PStr s) = Inr (length s)"
| "py_len (PList vs) = Inr (length vs)"
| "py_len (PDict kvs) = Inr (length kvs)"
| "py_len v = Inl (type_error (''object of type '' @ [CHR 0x27] @ type_name v @ [CHR 0x27]
                                @ '' has no len()''))"

text \<open>\<open>'; '.join(xs)\<close>: every item must be a string.\<close>

fun join_strs :: "string \<Rightarrow> pyval list \<Rightarrow> nat \<Rightarrow> exn + string" where
  "join_strs sep [] i = Inr []"
| "join_strs sep (PStr x # xs) i =
     (case join_strs sep xs (Suc i) of
        Inl e \<Rightarrow> Inl e
      | Inr r \<Rightarrow> Inr (if xs = [] then x else x @ sep @ r))"
| "join_strs sep (v # xs) i =
     Inl (type_error (''sequence item '' @ str_nat i @ '': expected str instance, ''
                      @ type_name v @ '' found''))"

section \<open>Collaborators and the calls made to them\<close>

text \<open>
  The workflow's collaborators are Retrieval (\<open>vector_service.search_multimodal\<close>),
  Generation (\<open>llm_service.generate_response\<close>) and Chart
  (\<open>chart_generator.generate_chart_from_query\<close>). Each call is recorded as an event;
  a collaborator sees the events so far, so its answer may depend on the history of the
  run, and it answers with a value or raises. The classifier is reached through the
  service object as well. The remaining fields are the Python library functions the code
  relies on: \<open>json.loads\<close>, \<open>str\<close>/\<open>repr\<close> of a value, \<open>float\<close> of a string,
  \<open>datetime.strptime\<close> (a point in time is an integer), the iteration order of a set,
  and the numeric part of \<open>_analyze_time_series\<close>, which calls no collaborator.
\<close>

datatype event =
    SearchCall string "string list" nat
  | LLMCall string
  | ChartCall string "document list"

record env =
  classify_service :: "string \<Rightarrow> exn + string"
  search_multimodal :: "event list \<Rightarrow> string \<Rightarrow> string list \<Rightarrow> nat
                          \<Rightarrow> exn + (string \<times> document list) list"
  generate_response :: "event list \<Rightarrow> string \<Rightarrow> exn + string"
  generate_chart_from_query :: "event list \<Rightarrow> string \<Rightarrow> document list \<Rightarrow> exn + pydict"
  json_loads :: "string \<Rightarrow> exn + pyval"
  py_str :: "pyval \<Rightarrow> string"
  py_float :: "string \<Rightarrow> pyval option"
  strptime :: "string \<Rightarrow> string \<Rightarrow> int option"
  list_of_set :: "string list \<Rightarrow> string list"
  analyze_time_series :: "(int \<times> pyval) list \<Rightarrow> string \<Rightarrow> exn + pydict"

text \<open>A computation takes the events so far and returns a value or an exception, with
  the events extended by the calls it made.\<close>

type_synonym 'a comp = "event list \<Rightarrow> (exn + 'a) \<times> event list"

definition ret :: "'a \<Rightarrow> 'a comp" where
  "ret x = (\<lambda>t. (Inr x, t))"

definition throw :: "exn \<Rightarrow> 'a comp" where
  "throw e = (\<lambda>t. (Inl e, t))"

definition lift :: "exn + 'a \<Rightarrow> 'a comp" where
  "lift r = (\<lambda>t. (r, t))"

definition cbind :: "'a comp \<Rightarrow> ('a \<Rightarrow> 'b comp) \<Rightarrow> 'b comp" where
  "cbind m f = (\<lambda>t. case m t of (Inl e, t') \<Rightarrow> (Inl e, t') | (Inr x, t') \<Rightarrow> f x t')"

definition call_search :: "env \<Rightarrow> string \<Rightarrow> string list \<Rightarrow> nat
                           \<Rightarrow> (string \<times> document list) list comp" where
  "call_search env q cts k = (\<lambda>t. (search_multimodal env t q cts k, t @ [SearchCall q cts k]))"

definition call_llm :: "env \<Rightarrow> string \<Rightarrow> string comp" where
  "call_llm env prompt = (\<lambda>t. (generate_response env t prompt, t @ [LLMCall prompt]))"

definition call_chart :: "env \<Rightarrow> string \<Rightarrow> document list \<Rightarrow> pydict comp" where
  "call_chart env q docs = (\<lambda>t. (generate_chart_from_query env t q docs, t @ [ChartCall q docs]))"

text \<open>An f-string field: a string is inserted as it is, any other value through \<open>str\<close>.\<close>

definition fstr :: "env \<Rightarrow> pyval \<Rightarrow> string" where
  "fstr env v = (case v of PStr s \<Rightarrow> s | _ \<Rightarrow> py_str env v)"

section \<open>RAG workflow: the AnalyzeQuery stage (rag\_graph.\_analyze\_query)\<close>

record rag_metadata =
  content_types :: "string list"
  requires_charts :: bool

text \<open>RAGState; the metadata dictionary is empty (\<open>None\<close>) until AnalyzeQuery
  writes its two keys.\<close>

record rag_state =
  rag_query :: string
  retrieved_docs :: "(string \<times> document list) list"
  rag_context :: string
  rag_response :: string
  chart_data :: pydict
  rag_meta :: "rag_metadata option"

definition analyze_query :: "rag_state \<Rightarrow> rag_state" where
  "analyze_query state =
     (let query = py_lower (rag_query state);
          cts0 = [''text''];
          cts1 = (if any_in [''table'', ''data'', ''statistics'', ''numbers'', ''trend'', ''chart''] query
                  then cts0 @ [''table''] else cts0);
          cts2 = (if any_in [''image'', ''figure'', ''diagram'', ''photo'', ''picture''] query
                  then cts1 @ [''image''] else cts1)
      in state\<lparr>rag_meta := Some \<lparr>content_types = cts2,
            requires_charts = any_in [''trend'', ''chart'', ''graph'', ''visualization''] query\<rparr>\<rparr>)"

section \<open>Analytics service: table extraction, time series, insights\<close>

subsection \<open>extract\_table\_data and \_parse\_table\_content\<close>

definition parse_part :: "env \<Rightarrow> pydict \<Rightarrow> string \<Rightarrow> pydict" where
  "parse_part env record part =
     (if CHR '':'' \<in> set part then
        (let key = takeWhile (\<lambda>c. c \<noteq> CHR '':'') part;
             val = drop 1 (dropWhile (\<lambda>c. c \<noteq> CHR '':'') part);
             cleaned = filter (\<lambda>c. c \<noteq> CHR '','' \<and> c \<noteq> CHR ''$'') (strip val);
             v = (case py_float env cleaned of Some x \<Rightarrow> x | None \<Rightarrow> PStr (strip val))
         in dict_set record (strip key) v)
      else record)"

definition parse_line :: "env \<Rightarrow> string \<Rightarrow> pyval list" where
  "parse_line env line =
     (if CHR ''|'' \<in> set line then
        (let parts = map strip (py_split line ''|'') in
         if length parts \<ge> 2 then
           (let record = foldl (parse_part env) [] parts in
            if record \<noteq> [] then [PDict record] else [])
         else [])
      else [])"

definition parse_table_content :: "env \<Rightarrow> string \<Rightarrow> pyval list" where
  "parse_table_content env content = concat (map (parse_line env) (py_split content nl))"

definition extract_table_doc :: "env \<Rightarrow> document \<Rightarrow> pyval list" where
  "extract_table_doc env doc =
     (case map_of (metadata doc) ''table_data'' of
        Some table_data \<Rightarrow> (case table_data of PList rows \<Rightarrow> rows | _ \<Rightarrow> [])
      | None \<Rightarrow> parse_table_content env (page_content doc))"

definition extract_table_data :: "env \<Rightarrow> document list \<Rightarrow> pyval list" where
  "extract_table_data env table_docs = concat (map (extract_table_doc env) table_docs)"

text \<open>\<open>search_results.get(k, [])\<close>.\<close>

definition search_get :: "(string \<times> document list) list \<Rightarrow> string \<Rightarrow> document list" where
  "search_get res k = (case map_of res k of Some docs \<Rightarrow> docs | None \<Rightarrow> [])"

subsection \<open>\_extract\_time\_series\<close>

definition is_date_key :: "string \<Rightarrow> bool" where
  "is_date_key k = any_in [''date'', ''time'', ''year'', ''month'', ''day''] (py_lower k)"

text \<open>The scan of the first five records for date-like keys runs outside the
  \<open>try\<close>: a record without \<open>items\<close> raises to the caller.\<close>

fun collect_date_columns :: "pyval list \<Rightarrow> exn + string list" where
  "collect_date_columns [] = Inr []"
| "collect_date_columns (r # rs) =
     (case dict_keys ''items'' r of
        Inl e \<Rightarrow> Inl e
      | Inr ks \<Rightarrow> (case collect_date_columns rs of
                     Inl e \<Rightarrow> Inl e
                   | Inr cs \<Rightarrow> Inr (filter is_date_key ks @ cs)))"

fun first_parse :: "env \<Rightarrow> string \<Rightarrow> string list \<Rightarrow> int option" where
  "first_parse env v [] = None"
| "first_parse env v (fmt # fmts) =
     (case strptime env v fmt of Some d \<Rightarrow> Some d | None \<Rightarrow> first_parse env v fmts)"

text \<open>
  One record and one date column, inside the \<open>try\<close>: \<open>None\<close> is an exception
  (\<open>date_col in record\<close> on a value that is not iterable, or indexing a string or a list
  by a string), which ends the whole extraction with no time series.
\<close>

fun record_entry :: "env \<Rightarrow> pyval \<Rightarrow> string \<Rightarrow> (int \<times> pyval) list option" where
  "record_entry env (PDict kvs) col =
     Some (case map_of kvs col of
             Some (PStr v) \<Rightarrow>
               (case first_parse env v [''%Y-%m-%d'', ''%m/%d/%Y'', ''%Y'', ''%m/%Y''] of
                  Some d \<Rightarrow> [(d, PDict kvs)]
                | None \<Rightarrow> [])
           | _ \<Rightarrow> [])"
| "record_entry env (PStr s) col = (if contains s col then None else Some [])"
| "record_entry env (PList vs) col = (if PStr col \<in> set vs then None else Some [])"
| "record_entry env v col = None"

fun record_entries :: "env \<Rightarrow> pyval \<Rightarrow> string list \<Rightarrow> (int \<times> pyval) list option" where
  "record_entries env r [] = Some []"
| "record_entries env r (c # cs) =
     (case record_entry env r c of
        None \<Rightarrow> None
      | Some es \<Rightarrow> (case record_entries env r cs of
                     None \<Rightarrow> None
                   | Some fs \<Rightarrow> Some (es @ fs)))"

fun collect_entries :: "env \<Rightarrow> string list \<Rightarrow> pyval list \<Rightarrow> (int \<times> pyval) list option" where
  "collect_entries env cols [] = Some []"
| "collect_entries env cols (r # rs) =
     (case record_entries env r cols of
        None \<Rightarrow> None
      | Some es \<Rightarrow> (case collect_entries env cols rs of
                     None \<Rightarrow> None
                   | Some fs \<Rightarrow> Some (es @ fs)))"

definition extract_time_series :: "env \<Rightarrow> pyval list \<Rightarrow> exn + (int \<times> pyval) list option" where
  "extract_time_series env data =
     (if data = [] then Inr None
      else case collect_date_columns (take 5 data) of
             Inl e \<Rightarrow> Inl e
           | Inr date_columns \<Rightarrow>
               if date_columns = [] then Inr None
               else (case collect_entries env date_columns data of
                       None \<Rightarrow> Inr None
                     | Some time_series \<Rightarrow>
                         if time_series \<noteq> [] then Inr (Some (sort_key fst time_series))
                         else Inr None))"

subsection \<open>analyze\_trends\<close>

definition analyze_trends :: "env \<Rightarrow> string \<Rightarrow> pydict comp" where
  "analyze_trends env q =
     cbind (call_search env (q @ '' timeline date time year month'') [''table''] 15)
       (\<lambda>search_results.
          let table_data = extract_table_data env (search_get search_results ''table'');
              trends = [(''trends'', PList []), (''forecast'', PNone), (''seasonality'', PNone),
                        (''anomalies'', PList []), (''confidence'', PFloat 0.5)]
          in cbind (lift (extract_time_series env table_data))
               (\<lambda>time_series.
                  case time_series of
                    None \<Rightarrow> ret trends
                  | Some ts \<Rightarrow>
                      if ts \<noteq> [] then
                        cbind (lift (analyze_time_series env ts q))
                          (\<lambda>upd. ret (dict_update trends upd))
                      else ret trends))"

subsection \<open>extract\_insights and its fallback\<close>

definition impact_keywords :: "string list" where
  "impact_keywords = [''increase'', ''decrease'', ''trend'', ''significant'',
                      ''growth'', ''decline'', ''improvement'', ''higher'', ''lower'']"

fun fallback_loop :: "string list \<Rightarrow> string list \<Rightarrow> string list" where
  "fallback_loop [] found = found"
| "fallback_loop (s # ss) found =
     (let sentence = strip s in
      if length sentence > 20 \<and> any_in impact_keywords (py_lower sentence) then
        (let found' = found @ [sentence @ (if \<not> endswith sentence ''.'' then ''.'' else [])] in
         if length found' \<ge> 5 then found' else fallback_loop ss found')
      else fallback_loop ss found)"

definition extract_insights_fallback :: "string \<Rightarrow> string list" where
  "extract_insights_fallback analysis = take 5 (fallback_loop (py_split analysis ''. '') [])"

definition insights_prompt :: "env \<Rightarrow> pyval \<Rightarrow> pyval list \<Rightarrow> string" where
  \<open>insights_prompt env analysis data = block 8
     [''Extract 3-5 key actionable insights from this analysis:'',
      '''',
      ''Analysis: '' @ fstr env analysis,
      '''',
      ''Data points: '' @ str_nat (length data),
      '''',
      ''Return insights as a JSON array of strings. Each insight should be:'',
      ''1. Specific and actionable'',
      ''2. Based on the data'',
      ''3. Business-relevant'',
      ''4. Concise (1-2 sentences)'',
      '''',
      ''Example format:'',
      ''["Revenue increased by 15% year-over-year", "Q4 showed strongest growth at 23%"]'']\<close>

text \<open>
  \<open>json.loads\<close> of the response: a list is returned as it is, any other value gives the
  one-element list of the response, and a parse error falls back to the sentences of the
  analysis (which must then be a string to have \<open>split\<close>).
\<close>

definition extract_insights :: "env \<Rightarrow> pyval \<Rightarrow> pyval list \<Rightarrow> pyval list comp" where
  "extract_insights env analysis data =
     cbind (call_llm env (insights_prompt env analysis data))
       (\<lambda>response.
          case json_loads env response of
            Inr (PList xs) \<Rightarrow> ret xs
          | Inr _ \<Rightarrow> ret [PStr response]
          | Inl _ \<Rightarrow> (case analysis of
                        PStr a \<Rightarrow> ret (map PStr (extract_insights_fallback a))
                      | v \<Rightarrow> throw (attr_error v ''split'')))"

section \<open>Analytics workflow (analytics\_graph.AnalyticsGraph)\<close>

record analytics_state =
  query :: string
  analysis_type :: string
  raw_data :: "pyval list"
  processed_data :: pydict
  insights :: "pyval list"
  charts :: pydict
  recommendations :: "pyval list"
  confidence :: real
  error :: string

text \<open>
  A stage whose body is wrapped in \<open>try ... except Exception as e\<close>: the handler writes
  \<open>state["error"]\<close> and the stage returns the state. Every body assigns to the state in
  its last statement only, after all calls that can raise, so on an exception the state
  is the one the stage received with \<open>error\<close> overwritten.
\<close>

definition try_stage :: "string \<Rightarrow> (analytics_state \<Rightarrow> analytics_state comp)
                         \<Rightarrow> analytics_state \<Rightarrow> analytics_state comp" where
  "try_stage prefix body state =
     (\<lambda>t. case body state t of
             (Inr state', t') \<Rightarrow> (Inr state', t')
           | (Inl (Exn m), t') \<Rightarrow> (Inr (state\<lparr>error := prefix @ m\<rparr>), t'))"

subsection \<open>ClassifyQuery\<close>

definition classify_query_body :: "env \<Rightarrow> analytics_state \<Rightarrow> analytics_state comp" where
  "classify_query_body env state =
     cbind (lift (classify_service env (query state)))
       (\<lambda>a. ret (state\<lparr>analysis_type := a\<rparr>))"

definition classify_query :: "env \<Rightarrow> analytics_state \<Rightarrow> analytics_state comp" where
  "classify_query env = try_stage ''Query classification failed: '' (classify_query_body env)"

subsection \<open>GatherData\<close>

definition gather_data_body :: "env \<Rightarrow> analytics_state \<Rightarrow> analytics_state comp" where
  "gather_data_body env state =
     (let a = analysis_type state;
          cts = (if a \<in> set [''trend_analysis'', ''comparison''] then [''table'', ''text'']
                 else if a = ''summary'' then [''text'', ''table'', ''image'']
                 else [''text'', ''table'']);
          k_per_type = (if a \<in> set [''trend_analysis'', ''comparison''] then 15
                        else if a = ''summary'' then 10
                        else 8)
      in cbind (call_search env (query state) cts k_per_type)
           (\<lambda>search_results.
              ret (state\<lparr>raw_data :=
                     extract_table_data env (search_get search_results ''table'')\<rparr>)))"

definition gather_data :: "env \<Rightarrow> analytics_state \<Rightarrow> analytics_state comp" where
  "gather_data env = try_stage ''Data gathering failed: '' (gather_data_body env)"

subsection \<open>ProcessData and its four routines\<close>

fun all_keys :: "pyval list \<Rightarrow> exn + string list" where
  "all_keys [] = Inr []"
| "all_keys (d # ds) =
     (case dict_keys ''keys'' d of
        Inl e \<Rightarrow> Inl e
      | Inr ks \<Rightarrow> (case all_keys ds of Inl e \<Rightarrow> Inl e | Inr rest \<Rightarrow> Inr (ks @ rest)))"

definition calculate_basic_stats :: "env \<Rightarrow> pyval list \<Rightarrow> exn + pydict" where
  "calculate_basic_stats env data =
     (case data of
        [] \<Rightarrow> Inr []
      | d0 # _ \<Rightarrow>
          (case all_keys data of
             Inl e \<Rightarrow> Inl e
           | Inr ks \<Rightarrow> Inr [(''total_records'', PInt (int (length data))),
                            (''columns'', PList (map PStr (list_of_set env ks))),
                            (''sample_record'', d0)]))"

definition process_trend_data :: "env \<Rightarrow> string \<Rightarrow> pyval list \<Rightarrow> pydict comp" where
  "process_trend_data env q data =
     cbind (analyze_trends env q)
       (\<lambda>trend_analysis.
          cbind (lift (calculate_basic_stats env data))
            (\<lambda>stats.
               ret [(''analysis'',
                       PStr (''Trend analysis reveals: '' @ py_str env (PDict trend_analysis))),
                    (''trend_data'', PDict trend_analysis),
                    (''statistics'', PDict stats)]))"

definition comparison_prompt :: "env \<Rightarrow> string \<Rightarrow> pyval list \<Rightarrow> string" where
  "comparison_prompt env q data = block 8
     [''Perform a comparative analysis based on this query: '' @ q,
      '''',
      ''Data available: '' @ str_nat (length data) @ '' records'',
      ''Sample: '' @ (if data \<noteq> [] then py_str env (PList (take 3 data)) else ''No data''),
      '''',
      ''Identify:'',
      ''1. Key metrics being compared'',
      ''2. Significant differences'',
      ''3. Performance rankings'',
      ''4. Statistical significance'']"

definition process_comparison_data :: "env \<Rightarrow> string \<Rightarrow> pyval list \<Rightarrow> pydict comp" where
  "process_comparison_data env q data =
     cbind (call_llm env (comparison_prompt env q data))
       (\<lambda>analysis.
          cbind (lift (calculate_basic_stats env data))
            (\<lambda>stats.
               ret [(''analysis'', PStr analysis),
                    (''comparison_data'', PList data),
                    (''statistics'', PDict stats)]))"

definition summary_prompt :: "env \<Rightarrow> string \<Rightarrow> pyval list \<Rightarrow> pydict \<Rightarrow> string" where
  "summary_prompt env q data stats = block 8
     [''Create a comprehensive summary for: '' @ q,
      '''',
      ''Data overview:'',
      ''- Records: '' @ str_nat (length data),
      ''- Statistics: '' @ py_str env (PDict stats),
      '''',
      ''Provide:'',
      ''1. Key highlights'',
      ''2. Important patterns'',
      ''3. Notable findings'',
      ''4. Overall assessment'']"

definition process_summary_data :: "env \<Rightarrow> string \<Rightarrow> pyval list \<Rightarrow> pydict comp" where
  "process_summary_data env q data =
     cbind (lift (calculate_basic_stats env data))
       (\<lambda>stats.
          cbind (call_llm env (summary_prompt env q data stats))
            (\<lambda>analysis.
               ret [(''analysis'', PStr analysis),
                    (''summary_stats'', PDict stats),
                    (''statistics'', PDict stats)]))"

definition general_prompt :: "env \<Rightarrow> string \<Rightarrow> pyval list \<Rightarrow> string" where
  "general_prompt env q data = block 8
     [''Analyze the data to answer: '' @ q,
      '''',
      ''Available data: '' @ str_nat (length data) @ '' records'',
      ''Sample data: '' @ (if data \<noteq> [] then py_str env (PList (take 5 data)) else ''No data''),
      '''',
      ''Provide a thorough analysis addressing the query.'']"

definition process_general_data :: "env \<Rightarrow> string \<Rightarrow> pyval list \<Rightarrow> pydict comp" where
  "process_general_data env q data =
     cbind (call_llm env (general_prompt env q data))
       (\<lambda>analysis.
          cbind (lift (calculate_basic_stats env data))
            (\<lambda>stats.
               ret [(''analysis'', PStr analysis),
                    (''data_overview'', PDict [(''record_count'', PInt (int (length data)))]),
                    (''statistics'', PDict stats)]))"

definition no_data_result :: pydict where
  "no_data_result =
     [(''analysis'', PStr ''No relevant data found for analysis.''),
      (''statistics'', PDict []),
      (''summary'', PStr ''Insufficient data for meaningful analysis.'')]"

definition process_data_body :: "env \<Rightarrow> analytics_state \<Rightarrow> analytics_state comp" where
  "process_data_body env state =
     (let q = query state; data = raw_data state; a = analysis_type state in
      if data = [] then ret (state\<lparr>processed_data := no_data_result\<rparr>)
      else cbind (if a = ''trend_analysis'' then process_trend_data env q data
                  else if a = ''comparison'' then process_comparison_data env q data
                  else if a = ''summary'' then process_summary_data env q data
                  else process_general_data env q data)
             (\<lambda>pd. ret (state\<lparr>processed_data := pd\<rparr>)))"

definition process_data :: "env \<Rightarrow> analytics_state \<Rightarrow> analytics_state comp" where
  "process_data env = try_stage ''Data processing failed: '' (process_data_body env)"

subsection \<open>GenerateInsights\<close>

definition generate_insights_body :: "env \<Rightarrow> analytics_state \<Rightarrow> analytics_state comp" where
  "generate_insights_body env state =
     (case map_of (processed_data state) ''analysis'' of
        Some analysis \<Rightarrow>
          cbind (extract_insights env analysis (raw_data state))
            (\<lambda>found. ret (state\<lparr>insights := found\<rparr>))
      | None \<Rightarrow>
          ret (state\<lparr>insights :=
                 [PStr ''No insights could be generated from the available data.'']\<rparr>))"

definition generate_insights :: "env \<Rightarrow> analytics_state \<Rightarrow> analytics_state comp" where
  "generate_insights env = try_stage ''Insight generation failed: '' (generate_insights_body env)"

subsection \<open>CreateVisualizations\<close>

definition table_docs_of :: "env \<Rightarrow> pyval list \<Rightarrow> document list" where
  "table_docs_of env data =
     [\<lparr>page_content = ''Table data: '' @ py_str env (PList (take 5 data)),
       metadata = [(''content_type'', PStr ''table''),
                   (''table_data'', PList data),
                   (''page_number'', PInt 1)]\<rparr>]"

definition create_visualizations_body :: "env \<Rightarrow> analytics_state \<Rightarrow> analytics_state comp" where
  "create_visualizations_body env state =
     (let q = query state; data = raw_data state; a = analysis_type state in
      if data \<noteq> [] \<and> a \<in> set [''trend_analysis'', ''comparison''] then
        cbind (call_chart env q (table_docs_of env data))
          (\<lambda>chart_result.
             ret (state\<lparr>charts := (if chart_result \<noteq> [] then chart_result else [])\<rparr>))
      else ret (state\<lparr>charts := []\<rparr>))"

definition create_visualizations :: "env \<Rightarrow> analytics_state \<Rightarrow> analytics_state comp" where
  "create_visualizations env =
     try_stage ''Visualization creation failed: '' (create_visualizations_body env)"

subsection \<open>FormulateRecommendations\<close>

definition recommendations_prompt :: "env \<Rightarrow> string \<Rightarrow> pyval \<Rightarrow> string \<Rightarrow> string" where
  "recommendations_prompt env a analysis joined = block 12
     [''Based on this '' @ a @ '' analysis, provide 3-5 actionable recommendations:'',
      '''',
      ''Analysis: '' @ fstr env analysis,
      '''',
      ''Key Insights: '' @ joined,
      '''',
      ''Provide specific, actionable recommendations that:'',
      ''1. Address the findings'',
      ''2. Are practical to implement'',
      ''3. Have clear business value'',
      ''4. Are prioritized by impact'',
      '''',
      ''Return as a JSON array of strings.'']"

definition recommendations_fallback :: "string \<Rightarrow> string list" where
  "recommendations_fallback response =
     take 5 (filter (\<lambda>r. length r > 10)
               (filter (\<lambda>l. l \<noteq> []) (map strip (py_split response nl))))"

definition formulate_recommendations_body :: "env \<Rightarrow> analytics_state \<Rightarrow> analytics_state comp" where
  "formulate_recommendations_body env state =
     (let analysis = dict_get (processed_data state) ''analysis'' (PStr []);
          a = analysis_type state in
      cbind (lift (join_strs ''; '' (insights state) 0))
        (\<lambda>joined.
           cbind (call_llm env (recommendations_prompt env a analysis joined))
             (\<lambda>response.
                ret (state\<lparr>recommendations :=
                       (case json_loads env response of
                          Inr (PList xs) \<Rightarrow> xs
                        | Inr _ \<Rightarrow> [PStr response]
                        | Inl _ \<Rightarrow> map PStr (recommendations_fallback response))\<rparr>))))"

definition formulate_recommendations :: "env \<Rightarrow> analytics_state \<Rightarrow> analytics_state comp" where
  "formulate_recommendations env =
     try_stage ''Recommendation generation failed: '' (formulate_recommendations_body env)"

subsection \<open>CalculateConfidence\<close>

definition calculate_confidence_body :: "analytics_state \<Rightarrow> analytics_state comp" where
  "calculate_confidence_body state =
     (let c0 = (0.5 :: real);
          c1 = (if length (raw_data state) > 50 then c0 + 0.2
                else if length (raw_data state) > 20 then c0 + 0.1
                else c0)
      in cbind (lift (py_len (dict_get (processed_data state) ''analysis'' (PStr []))))
           (\<lambda>n.
              let c2 = (if n > 200 then c1 + 0.1 else c1);
                  c3 = (if length (insights state) \<ge> 3 then c2 + 0.1 else c2);
                  c4 = (if charts state \<noteq> [] then c3 + 0.1 else c3);
                  c5 = (if analysis_type state \<in> set [''trend_analysis'', ''summary'']
                        then c4 + 0.05 else c4)
              in ret (state\<lparr>confidence := min 1.0 c5\<rparr>)))"

definition calculate_confidence :: "analytics_state \<Rightarrow> analytics_state comp" where
  "calculate_confidence = try_stage ''Confidence calculation failed: '' calculate_confidence_body"

subsection \<open>HandleError and the routing function\<close>

text \<open>HandleError has no \<open>try\<close>; nothing in it can raise.\<close>

definition handle_error :: "analytics_state \<Rightarrow> analytics_state comp" where
  "handle_error state =
     (let error_msg = error state in
      ret (state\<lparr>processed_data :=
                   [(''analysis'',
                       PStr (''Analytics processing encountered an error: '' @ error_msg)),
                    (''statistics'', PDict []),
                    (''summary'', PStr ''Unable to complete analysis due to technical issues.'')],
                 insights := [PStr ''Analysis could not be completed due to technical issues.''],
                 charts := [],
                 recommendations :=
                   [PStr ''Please try rephrasing your query or contact support.''],
                 confidence := 0.1\<rparr>))"

definition should_continue_after_classification :: "analytics_state \<Rightarrow> string" where
  "should_continue_after_classification state =
     (if error state \<noteq> [] then ''error'' else ''continue'')"

subsection \<open>The graph (\_build\_graph) and its execution\<close>

datatype node = ClassifyQuery | GatherData | ProcessData | GenerateInsights
  | CreateVisualizations | FormulateRecommendations | CalculateConfidence
  | HandleError | END

fun node_fn :: "env \<Rightarrow> node \<Rightarrow> analytics_state \<Rightarrow> analytics_state comp" where
  "node_fn env ClassifyQuery = classify_query env"
| "node_fn env GatherData = gather_data env"
| "node_fn env ProcessData = process_data env"
| "node_fn env GenerateInsights = generate_insights env"
| "node_fn env CreateVisualizations = create_visualizations env"
| "node_fn env FormulateRecommendations = formulate_recommendations env"
| "node_fn env CalculateConfidence = calculate_confidence"
| "node_fn env HandleError = handle_error"
| "node_fn env END = ret"

text \<open>The edges: one conditional edge after ClassifyQuery, keyed by the routing
  function's answer, and plain edges elsewhere.\<close>

fun next_node :: "node \<Rightarrow> analytics_state \<Rightarrow> node" where
  "next_node ClassifyQuery state =
     (case map_of [(''continue'', GatherData), (''error'', HandleError)]
             (should_continue_after_classification state) of
        Some n \<Rightarrow> n | None \<Rightarrow> END)"
| "next_node GatherData state = ProcessData"
| "next_node ProcessData state = GenerateInsights"
| "next_node GenerateInsights state = CreateVisualizations"
| "next_node CreateVisualizations state = FormulateRecommendations"
| "next_node FormulateRecommendations state = CalculateConfidence"
| "next_node CalculateConfidence state = END"
| "next_node HandleError state = END"
| "next_node END state = END"

fun rank :: "node \<Rightarrow> nat" where
  "rank ClassifyQuery = 8"
| "rank GatherData = 7"
| "rank ProcessData = 6"
| "rank GenerateInsights = 5"
| "rank CreateVisualizations = 4"
| "rank FormulateRecommendations = 3"
| "rank CalculateConfidence = 2"
| "rank HandleError = 1"
| "rank END = 0"

text \<open>
  Running the compiled graph from a node: the node's function is applied, the edge out
  of it chosen on the new state, until END. The nodes executed are collected in order.
  An exception leaving a node would leave the run.
\<close>

function run_from :: "env \<Rightarrow> node \<Rightarrow> analytics_state \<Rightarrow> node list
                      \<Rightarrow> (analytics_state \<times> node list) comp" where
  "run_from env n state path t =
     (if n = END then (Inr (state, path), t)
      else case node_fn env n state t of
             (Inl e, t') \<Rightarrow> (Inl e, t')
           | (Inr state', t') \<Rightarrow> run_from env (next_node n state') state' (path @ [n]) t')"
  by pat_completeness auto
termination
proof (relation "measure (\<lambda>(env, n, state, path, t). rank n)")
  show "wf (measure (\<lambda>(env, n, state, path, t). rank n))" by simp
next
  fix env :: env and n :: node and state :: analytics_state and path :: "node list"
    and t :: "event list" and x and xa and y and x2
  assume "n \<noteq> END"
  then show "((env, next_node n x2, x2, path @ [n], y), (env, n, state, path, t))
              \<in> measure (\<lambda>(env, n, state, path, t). rank n)"
    by (cases n) (simp_all add: should_continue_after_classification_def)
qed

definition ainvoke :: "env \<Rightarrow> analytics_state \<Rightarrow> (analytics_state \<times> node list) comp" where
  "ainvoke env state = run_from env ClassifyQuery state []"

subsection \<open>process\_analytics\_query\<close>

record analytics_result =
  r_query :: string
  r_analysis_type :: "string option"
  r_analysis :: pyval
  r_insights :: "pyval list"
  r_charts :: pydict
  r_recommendations :: "pyval list"
  r_confidence :: real
  r_data_points :: nat
  r_error :: string

definition initial_state :: "string \<Rightarrow> string option \<Rightarrow> analytics_state" where
  "initial_state q a =
     \<lparr>query = q,
      analysis_type = (case a of Some x \<Rightarrow> x | None \<Rightarrow> []),
      raw_data = [], processed_data = [], insights = [], charts = [],
      recommendations = [], confidence = 0.0, error = []\<rparr>"

text \<open>The call of the graph is inside \<open>try ... except Exception\<close>; the fallback
  dictionary has no \<open>analysis_type\<close> key.\<close>

definition process_analytics_query :: "env \<Rightarrow> string \<Rightarrow> string option \<Rightarrow> analytics_result comp" where
  "process_analytics_query env q a =
     (\<lambda>t. case ainvoke env (initial_state q a) t of
             (Inr (result, path), t') \<Rightarrow>
               (Inr \<lparr>r_query = q,
                     r_analysis_type = Some (analysis_type result),
                     r_analysis = dict_get (processed_data result) ''analysis'' (PStr []),
                     r_insights = insights result,
                     r_charts = charts result,
                     r_recommendations = recommendations result,
                     r_confidence = confidence result,
                     r_data_points = length (raw_data result),
                     r_error = error result\<rparr>, t')
           | (Inl (Exn m), t') \<Rightarrow>
               (Inr \<lparr>r_query = q,
                     r_analysis_type = None,
                     r_analysis = PStr (''Analytics processing failed: '' @ m),
                     r_insights = [],
                     r_charts = [],
                     r_recommendations = [],
                     r_confidence = 0.1,
                     r_data_points = 0,
                     r_error = m\<rparr>, t'))"

subsection \<open>The state on entry to a node\<close>

text \<open>
  \<open>run_to env n state t target\<close> follows the same execution as \<^const>\<open>run_from\<close> and
  stops when the run is about to execute \<open>target\<close>: it gives the state and the events
  with which \<open>target\<close> is entered, or \<open>None\<close> when the run ends without reaching it.
\<close>

function run_to :: "env \<Rightarrow> node \<Rightarrow> analytics_state \<Rightarrow> event list \<Rightarrow> node
                    \<Rightarrow> (analytics_state \<times> event list) option" where
  "run_to env n state t target =
     (if n = target then Some (state, t)
      else if n = END then None
      else case node_fn env n state t of
             (Inl e, t') \<Rightarrow> None
           | (Inr state', t') \<Rightarrow> run_to env (next_node n state') state' t' target)"
  by pat_completeness auto
termination
proof (relation "measure (\<lambda>(env, n, state, t, target). rank n)")
  show "wf (measure (\<lambda>(env, n, state, t, target). rank n))" by simp
next
  fix env :: env and n :: node and state :: analytics_state and t :: "event list"
    and target :: node and x and xa and y and x2
  assume "n \<noteq> END"
  then show "((env, next_node n x2, x2, y, target), (env, n, state, t, target))
              \<in> measure (\<lambda>(env, n, state, t, target). rank n)"
    by (cases n) (simp_all add: should_continue_after_classification_def)
qed

text \<open>The narrative of a state: \<open>processed_data.get("analysis", "")\<close>.\<close>

definition narrative :: "analytics_state \<Rightarrow> pyval" where
  "narrative state = dict_get (processed_data state) ''analysis'' (PStr [])"

text \<open>Every node returns a state; what it may have changed depends on the node.\<close>

definition node_effect :: "node \<Rightarrow> analytics_state \<Rightarrow> analytics_state \<Rightarrow> bool" where
  "node_effect n s s' =
     ((\<exists>m. m \<noteq> [] \<and> s' = s\<lparr>error := m\<rparr>)
      \<or> (n = ClassifyQuery \<and> (\<exists>x. s' = s\<lparr>analysis_type := x\<rparr>))
      \<or> (n = GatherData \<and> (\<exists>x. s' = s\<lparr>raw_data := x\<rparr>))
      \<or> (n = ProcessData \<and> (\<exists>x txt. s' = s\<lparr>processed_data := x\<rparr>
                                  \<and> map_of x ''analysis'' = Some (PStr txt)))
      \<or> (n = GenerateInsights \<and> (\<exists>x. s' = s\<lparr>insights := x\<rparr>))
      \<or> (n = CreateVisualizations \<and> (\<exists>x. s' = s\<lparr>charts := x\<rparr>))
      \<or> (n = FormulateRecommendations \<and> (\<exists>x. s' = s\<lparr>recommendations := x\<rparr>))
      \<or> (n = CalculateConfidence \<and> (\<exists>x. s' = s\<lparr>confidence := x\<rparr> \<and> 0.5 \<le> x \<and> x \<le> 1))
      \<or> (n = HandleError \<and> (\<exists>pd txt. s' = s\<lparr>processed_data := pd, insights :=
               [PStr ''Analysis could not be completed due to technical issues.''],
             charts := [],
             recommendations := [PStr ''Please try rephrasing your query or contact support.''],
             confidence := 0.1\<rparr> \<and> map_of pd ''analysis'' = Some (PStr txt))))"

text \<open>The nodes of the normal route after ClassifyQuery, in order.\<close>

definition normal_path :: "node list" where
  "normal_path = [GatherData, ProcessData, GenerateInsights, CreateVisualizations,
                  FormulateRecommendations, CalculateConfidence]"



section \<open>The Confidence Scorer as specified\<close>

definition clamp01 :: "real \<Rightarrow> real" where
  "clamp01 x = max 0.0 (min 1.0 x)"

definition confidence_spec :: "nat \<Rightarrow> nat \<Rightarrow> nat \<Rightarrow> bool \<Rightarrow> string \<Rightarrow> real" where
  "confidence_spec n_data n_narrative n_insights has_chart a =
     clamp01 (0.5
       + (if n_data > 50 then 0.2 else if n_data > 20 then 0.1 else 0)
       + (if n_narrative > 200 then 0.1 else 0)
       + (if n_insights \<ge> 3 then 0.1 else 0)
       + (if has_chart then 0.1 else 0)
       + (if a = ''trend_analysis'' \<or> a = ''summary'' then 0.05 else 0))"

section \<open>Stub collaborators for concrete runs\<close>

text \<open>
  A deterministic environment in the manner of a test double: the classifier is the
  real one, Retrieval returns the empty mapping, Generation answers every prompt with
  the given response, Chart returns the empty chart. \<open>json_loads_stub\<close> is
  \<open>json.loads\<close> on the two responses used below: an array of six strings, and any
  other text, taken not to be JSON.
\<close>

definition six_items :: string where
  \<open>six_items = ''["a", "b", "c", "d", "e", "f"]''\<close>

definition json_loads_stub :: "string \<Rightarrow> exn + pyval" where
  "json_loads_stub r =
     (if r = six_items
      then Inr (PList [PStr ''a'', PStr ''b'', PStr ''c'', PStr ''d'', PStr ''e'', PStr ''f''])
      else Inl (Exn ''Expecting value: line 1 column 1 (char 0)''))"

definition stub_env :: "string \<Rightarrow> env" where
  "stub_env response =
     \<lparr>classify_service = (\<lambda>q. Inr (classify_query_type q)),
      search_multimodal = (\<lambda>t q cts k. Inr []),
      generate_response = (\<lambda>t prompt. Inr response),
      generate_chart_from_query = (\<lambda>t q docs. Inr []),
      json_loads = json_loads_stub,
      py_str = (\<lambda>v. ''<value>''),
      py_float = (\<lambda>s. None),
      strptime = (\<lambda>v fmt. None),
      list_of_set = remdups,
      analyze_time_series = (\<lambda>ts q. Inr [])\<rparr>"

definition sample_rows :: "pyval list" where
  "sample_rows = [PDict [(''month'', PStr ''Jan''), (''sales'', PFloat 10)],
                  PDict [(''month'', PStr ''Feb''), (''sales'', PFloat 12)]]"

section \<open>Basic facts about computations and stages\<close>

lemma ret_Inr: "ret x t = (Inr y, t') \<Longrightarrow> y = x \<and> t' = t"
  by (simp add: ret_def)

lemma cbind_Inr:
  "cbind m f t = (Inr y, t') \<Longrightarrow> \<exists>x t1. m t = (Inr x, t1) \<and> f x t1 = (Inr y, t')"
  by (auto simp: cbind_def split: prod.splits sum.splits)

lemma cbind_ret_Inr:
  "cbind m (\<lambda>x. ret (f x)) t = (Inr y, t') \<Longrightarrow> \<exists>x. m t = (Inr x, t') \<and> y = f x"
  by (auto simp: cbind_def ret_def split: prod.splits sum.splits)

lemma cbind_lift_Inr: "cbind (lift (Inr x)) f t = f x t"
  by (simp add: cbind_def lift_def)

lemma cbind_lift_Inl: "cbind (lift (Inl e)) f t = (Inl e, t)"
  by (simp add: cbind_def lift_def)

lemma try_stage_Inr: "body s t = (Inr s', t') \<Longrightarrow> try_stage p body s t = (Inr s', t')"
  by (simp add: try_stage_def)

lemma try_stage_Inl:
  "body s t = (Inl (Exn m), t') \<Longrightarrow> try_stage p body s t = (Inr (s\<lparr>error := p @ m\<rparr>), t')"
  by (simp add: try_stage_def)

lemma try_stage_frame:
  assumes "\<And>s' t'. body s t = (Inr s', t') \<Longrightarrow> Q s'"
  shows "\<exists>s' t'. try_stage p body s t = (Inr s', t')
           \<and> (Q s' \<or> (\<exists>m. s' = s\<lparr>error := p @ m\<rparr>))"
proof (cases "body s t")
  case (Pair r t')
  show ?thesis
  proof (cases r)
    case (Inl e)
    then show ?thesis using Pair by (cases e) (auto simp add: try_stage_def)
  next
    case (Inr s')
    then show ?thesis using Pair assms by (simp add: try_stage_def)
  qed
qed

subsection \<open>What each stage can change\<close>

lemma classify_query_frame:
  "\<exists>s' t'. classify_query env s t = (Inr s', t')
     \<and> ((\<exists>x. s' = s\<lparr>analysis_type := x\<rparr>)
        \<or> (\<exists>m. s' = s\<lparr>error := ''Query classification failed: '' @ m\<rparr>))"
  unfolding classify_query_def
  by (rule try_stage_frame) (auto simp: classify_query_body_def dest!: cbind_ret_Inr)

lemma gather_data_frame:
  "\<exists>s' t'. gather_data env s t = (Inr s', t')
     \<and> ((\<exists>x. s' = s\<lparr>raw_data := x\<rparr>)
        \<or> (\<exists>m. s' = s\<lparr>error := ''Data gathering failed: '' @ m\<rparr>))"
  unfolding gather_data_def
  by (rule try_stage_frame) (auto simp: gather_data_body_def Let_def dest!: cbind_ret_Inr)

lemma process_trend_data_analysis:
  "process_trend_data env q data t = (Inr pd, t') \<Longrightarrow> \<exists>txt. map_of pd ''analysis'' = Some (PStr txt)"
  by (auto simp: process_trend_data_def dest!: cbind_Inr ret_Inr)

lemma process_comparison_data_analysis:
  "process_comparison_data env q data t = (Inr pd, t') \<Longrightarrow> \<exists>txt. map_of pd ''analysis'' = Some (PStr txt)"
  by (auto simp: process_comparison_data_def dest!: cbind_Inr ret_Inr)

lemma process_summary_data_analysis:
  "process_summary_data env q data t = (Inr pd, t') \<Longrightarrow> \<exists>txt. map_of pd ''analysis'' = Some (PStr txt)"
  by (auto simp: process_summary_data_def dest!: cbind_Inr ret_Inr)

lemma process_general_data_analysis:
  "process_general_data env q data t = (Inr pd, t') \<Longrightarrow> \<exists>txt. map_of pd ''analysis'' = Some (PStr txt)"
  by (auto simp: process_general_data_def dest!: cbind_Inr ret_Inr)

lemma process_data_frame:
  "\<exists>s' t'. process_data env s t = (Inr s', t')
     \<and> ((\<exists>x txt. s' = s\<lparr>processed_data := x\<rparr> \<and> map_of x ''analysis'' = Some (PStr txt))
        \<or> (\<exists>m. s' = s\<lparr>error := ''Data processing failed: '' @ m\<rparr>))"
  unfolding process_data_def
proof (rule try_stage_frame)
  fix s' t'
  assume b: "process_data_body env s t = (Inr s', t')"
  show "\<exists>x txt. s' = s\<lparr>processed_data := x\<rparr> \<and> map_of x ''analysis'' = Some (PStr txt)"
  proof (cases "raw_data s = []")
    case True
    with b have "s' = s\<lparr>processed_data := no_data_result\<rparr>"
      by (auto simp: process_data_body_def Let_def dest!: ret_Inr)
    then show ?thesis by (auto simp: no_data_result_def)
  next
    case False
    with b obtain pd where
      r: "(if analysis_type s = ''trend_analysis'' then process_trend_data env (query s) (raw_data s)
           else if analysis_type s = ''comparison'' then process_comparison_data env (query s) (raw_data s)
           else if analysis_type s = ''summary'' then process_summary_data env (query s) (raw_data s)
           else process_general_data env (query s) (raw_data s)) t = (Inr pd, t')"
      and s': "s' = s\<lparr>processed_data := pd\<rparr>"
      by (auto simp: process_data_body_def Let_def dest!: cbind_ret_Inr)
    from r have "\<exists>txt. map_of pd ''analysis'' = Some (PStr txt)"
      by (auto split: if_splits
               dest: process_trend_data_analysis process_comparison_data_analysis
                     process_summary_data_analysis process_general_data_analysis)
    with s' show ?thesis by blast
  qed
qed

lemma generate_insights_frame:
  "\<exists>s' t'. generate_insights env s t = (Inr s', t')
     \<and> ((\<exists>x. s' = s\<lparr>insights := x\<rparr>)
        \<or> (\<exists>m. s' = s\<lparr>error := ''Insight generation failed: '' @ m\<rparr>))"
  unfolding generate_insights_def
  by (rule try_stage_frame)
     (auto simp: generate_insights_body_def dest!: cbind_ret_Inr ret_Inr split: option.splits)

lemma create_visualizations_frame:
  "\<exists>s' t'. create_visualizations env s t = (Inr s', t')
     \<and> ((\<exists>x. s' = s\<lparr>charts := x\<rparr>)
        \<or> (\<exists>m. s' = s\<lparr>error := ''Visualization creation failed: '' @ m\<rparr>))"
  unfolding create_visualizations_def
  by (rule try_stage_frame)
     (auto simp: create_visualizations_body_def Let_def dest!: cbind_ret_Inr ret_Inr
           split: if_splits)

lemma formulate_recommendations_frame:
  "\<exists>s' t'. formulate_recommendations env s t = (Inr s', t')
     \<and> ((\<exists>x. s' = s\<lparr>recommendations := x\<rparr>)
        \<or> (\<exists>m. s' = s\<lparr>error := ''Recommendation generation failed: '' @ m\<rparr>))"
  unfolding formulate_recommendations_def
  by (rule try_stage_frame)
     (auto simp: formulate_recommendations_body_def Let_def dest!: cbind_Inr cbind_ret_Inr)

subsection \<open>The scoring arithmetic\<close>

lemma score_eq:
  fixes nd nn ni :: nat
  shows "min 1.0
     (let c0 = (0.5 :: real);
          c1 = (if nd > 50 then c0 + 0.2 else if nd > 20 then c0 + 0.1 else c0);
          c2 = (if nn > 200 then c1 + 0.1 else c1);
          c3 = (if ni \<ge> 3 then c2 + 0.1 else c2);
          c4 = (if hc then c3 + 0.1 else c3);
          c5 = (if a \<in> set [''trend_analysis'', ''summary''] then c4 + 0.05 else c4)
      in c5) = confidence_spec nd nn ni hc a"
proof -
  define b1 :: real where "b1 = (if nd > 50 then 0.2 else if nd > 20 then 0.1 else 0)"
  define b2 :: real where "b2 = (if nn > 200 then 0.1 else 0)"
  define b3 :: real where "b3 = (if ni \<ge> 3 then 0.1 else 0)"
  define b4 :: real where "b4 = (if hc then 0.1 else 0)"
  define b5 :: real where "b5 = (if a = ''trend_analysis'' \<or> a = ''summary'' then 0.05 else 0)"
  have nn: "0 \<le> b1" "0 \<le> b2" "0 \<le> b3" "0 \<le> b4" "0 \<le> b5"
    by (simp_all add: b1_def b2_def b3_def b4_def b5_def)
  have lhs: "(let c0 = (0.5 :: real);
          c1 = (if nd > 50 then c0 + 0.2 else if nd > 20 then c0 + 0.1 else c0);
          c2 = (if nn > 200 then c1 + 0.1 else c1);
          c3 = (if ni \<ge> 3 then c2 + 0.1 else c2);
          c4 = (if hc then c3 + 0.1 else c3);
          c5 = (if a \<in> set [''trend_analysis'', ''summary''] then c4 + 0.05 else c4)
      in c5) = 0.5 + b1 + b2 + b3 + b4 + b5"
    unfolding Let_def by (simp add: b1_def b2_def b3_def b4_def b5_def)
  have "min 1.0 (0.5 + b1 + b2 + b3 + b4 + b5) = clamp01 (0.5 + b1 + b2 + b3 + b4 + b5)"
    using nn by (simp add: clamp01_def)
  then show ?thesis
    unfolding lhs confidence_spec_def b1_def b2_def b3_def b4_def b5_def .
qed

lemma clamp01_range: "0.5 \<le> x \<Longrightarrow> 0.5 \<le> clamp01 x \<and> clamp01 x \<le> 1"
  by (simp add: clamp01_def max_def min_def)

lemma confidence_spec_range:
  "0.5 \<le> confidence_spec nd nn ni hc a \<and> confidence_spec nd nn ni hc a \<le> 1"
proof -
  have "0 \<le> (if nd > 50 then 0.2 else if nd > 20 then 0.1 else (0::real))"
    and "0 \<le> (if nn > 200 then 0.1 else (0::real))"
    and "0 \<le> (if ni \<ge> 3 then 0.1 else (0::real))"
    and "0 \<le> (if hc then 0.1 else (0::real))"
    and "0 \<le> (if a = ''trend_analysis'' \<or> a = ''summary'' then 0.05 else (0::real))"
    by simp_all
  then have "0.5 \<le> 0.5
       + (if nd > 50 then 0.2 else if nd > 20 then 0.1 else (0::real))
       + (if nn > 200 then 0.1 else 0)
       + (if ni \<ge> 3 then 0.1 else 0)
       + (if hc then 0.1 else 0)
       + (if a = ''trend_analysis'' \<or> a = ''summary'' then 0.05 else 0)"
    by linarith
  then show ?thesis
    unfolding confidence_spec_def by (rule clamp01_range)
qed

lemma calculate_confidence_body_eq:
  "calculate_confidence_body s t =
     (case py_len (dict_get (processed_data s) ''analysis'' (PStr [])) of
        Inl e \<Rightarrow> (Inl e, t)
      | Inr n \<Rightarrow> (Inr (s\<lparr>confidence := confidence_spec (length (raw_data s)) n
                          (length (insights s)) (charts s \<noteq> []) (analysis_type s)\<rparr>), t))"
proof (cases "py_len (dict_get (processed_data s) ''analysis'' (PStr []))")
  case (Inl e)
  then show ?thesis
    by (simp add: calculate_confidence_body_def Let_def cbind_def lift_def)
next
  case (Inr n)
  have "calculate_confidence_body s t =
     (Inr (s\<lparr>confidence := min 1.0
     (let c0 = (0.5 :: real);
          c1 = (if length (raw_data s) > 50 then c0 + 0.2
                else if length (raw_data s) > 20 then c0 + 0.1 else c0);
          c2 = (if n > 200 then c1 + 0.1 else c1);
          c3 = (if length (insights s) \<ge> 3 then c2 + 0.1 else c2);
          c4 = (if charts s \<noteq> [] then c3 + 0.1 else c3);
          c5 = (if analysis_type s \<in> set [''trend_analysis'', ''summary'']
                then c4 + 0.05 else c4)
      in c5)\<rparr>), t)"
    unfolding calculate_confidence_body_def Let_def cbind_def lift_def ret_def Inr
    by (simp only: sum.case prod.case)
  then show ?thesis unfolding score_eq Inr by simp
qed

lemma calculate_confidence_frame:
  "\<exists>s' t'. calculate_confidence s t = (Inr s', t')
     \<and> ((\<exists>x. s' = s\<lparr>confidence := x\<rparr> \<and> 0.5 \<le> x \<and> x \<le> 1)
        \<or> (\<exists>m. s' = s\<lparr>error := ''Confidence calculation failed: '' @ m\<rparr>))"
  unfolding calculate_confidence_def
proof (rule try_stage_frame)
  fix s' t'
  assume "calculate_confidence_body s t = (Inr s', t')"
  then show "\<exists>x. s' = s\<lparr>confidence := x\<rparr> \<and> 0.5 \<le> x \<and> x \<le> 1"
    unfolding calculate_confidence_body_eq
    using confidence_spec_range by (auto split: sum.splits)
qed

subsection \<open>Running the graph\<close>

lemma run_from_END: "run_from env END s p t = (Inr (s, p), t)"
  by simp

lemma run_from_step:
  "n \<noteq> END \<Longrightarrow> node_fn env n s t = (Inr s', t')
     \<Longrightarrow> run_from env n s p t = run_from env (next_node n s') s' (p @ [n]) t'"
  by simp

lemma run_to_here: "run_to env n s t n = Some (s, t)"
  by simp

lemma run_to_END: "target \<noteq> END \<Longrightarrow> run_to env END s t target = None"
  by simp

lemma run_to_step:
  "n \<noteq> target \<Longrightarrow> n \<noteq> END \<Longrightarrow> node_fn env n s t = (Inr s', t')
     \<Longrightarrow> run_to env n s t target = run_to env (next_node n s') s' t' target"
  by simp

declare run_from.simps [simp del] run_to.simps [simp del]

lemma handle_error_eq:
  "handle_error s t =
     (Inr (s\<lparr>processed_data :=
              [(''analysis'', PStr (''Analytics processing encountered an error: '' @ error s)),
               (''statistics'', PDict []),
               (''summary'', PStr ''Unable to complete analysis due to technical issues.'')],
            insights := [PStr ''Analysis could not be completed due to technical issues.''],
            charts := [],
            recommendations := [PStr ''Please try rephrasing your query or contact support.''],
            confidence := 0.1\<rparr>), t)"
  by (simp add: handle_error_def ret_def Let_def)

lemma node_fn_effect:
  assumes "n \<noteq> END"
  shows "\<exists>s' t'. node_fn env n s t = (Inr s', t') \<and> node_effect n s s'"
proof (cases n)
  case ClassifyQuery
  from classify_query_frame [of env s t] show ?thesis
    unfolding ClassifyQuery node_effect_def by (simp del: append_eq_conv_conj) blast
next
  case GatherData
  from gather_data_frame [of env s t] show ?thesis
    unfolding GatherData node_effect_def by simp blast
next
  case ProcessData
  from process_data_frame [of env s t] show ?thesis
    unfolding ProcessData node_effect_def by simp blast
next
  case GenerateInsights
  from generate_insights_frame [of env s t] show ?thesis
    unfolding GenerateInsights node_effect_def by simp blast
next
  case CreateVisualizations
  from create_visualizations_frame [of env s t] show ?thesis
    unfolding CreateVisualizations node_effect_def by simp blast
next
  case FormulateRecommendations
  from formulate_recommendations_frame [of env s t] show ?thesis
    unfolding FormulateRecommendations node_effect_def by simp blast
next
  case CalculateConfidence
  from calculate_confidence_frame [of s t] show ?thesis
    unfolding CalculateConfidence node_effect_def by simp blast
next
  case HandleError
  define pd where "pd =
     [(''analysis'', PStr (''Analytics processing encountered an error: '' @ error s)),
      (''statistics'', PDict []),
      (''summary'', PStr ''Unable to complete analysis due to technical issues.'')]"
  have "map_of pd ''analysis''
          = Some (PStr (''Analytics processing encountered an error: '' @ error s))"
    unfolding pd_def by simp
  then have "node_effect HandleError s (s\<lparr>processed_data := pd, insights :=
               [PStr ''Analysis could not be completed due to technical issues.''],
             charts := [],
             recommendations := [PStr ''Please try rephrasing your query or contact support.''],
             confidence := 0.1\<rparr>)"
    unfolding node_effect_def by blast
  then show ?thesis
    unfolding HandleError node_fn.simps handle_error_eq pd_def by blast
next
  case END
  with assms show ?thesis by simp
qed

lemma run_from_invariant:
  assumes pres: "\<And>n s s'. n \<noteq> END \<Longrightarrow> P s \<Longrightarrow> node_effect n s s' \<Longrightarrow> P s'"
  shows "P s \<Longrightarrow> \<exists>s' p' t'. run_from env n s p t = (Inr (s', p'), t') \<and> P s'"
proof (induction env n s p t rule: run_from.induct)
  case (1 env n state path t)
  show ?case
  proof (cases "n = END")
    case True
    with "1.prems" show ?thesis by (simp add: run_from_END)
  next
    case False
    from node_fn_effect [OF False, of env state t] obtain s1 t1 where
      nf: "node_fn env n state t = (Inr s1, t1)" and eff: "node_effect n state s1"
      by blast
    from pres [OF False "1.prems" eff] have P1: "P s1" .
    from "1.IH" [OF False nf [symmetric] refl P1]
    show ?thesis using run_from_step [OF False nf] by simp
  qed
qed

lemma run_to_invariant_aux:
  assumes pres: "\<And>n s s'. n \<noteq> END \<Longrightarrow> n \<noteq> target \<Longrightarrow> P s \<Longrightarrow> node_effect n s s' \<Longrightarrow> P s'"
  shows "P s \<Longrightarrow> run_to env n s t tg = Some (s', t') \<Longrightarrow> tg = target \<Longrightarrow> P s'"
proof (induction env n s t tg rule: run_to.induct)
  case (1 env n state t tg)
  note tg = \<open>tg = target\<close>
  show ?case
  proof (cases "n = tg")
    case True
    with "1.prems" show ?thesis by (simp add: run_to_here)
  next
    case nt: False
    show ?thesis
    proof (cases "n = END")
      case True
      with nt "1.prems" show ?thesis by (simp add: run_to_END)
    next
      case False
      from node_fn_effect [OF False, of env state t] obtain s1 t1 where
        nf: "node_fn env n state t = (Inr s1, t1)" and eff: "node_effect n state s1"
        by blast
      from nt tg have nt': "n \<noteq> target" by simp
      from pres [OF False nt' "1.prems"(1) eff] have P1: "P s1" .
      from "1.prems"(2) have "run_to env (next_node n s1) s1 t1 tg = Some (s', t')"
        using run_to_step [OF nt False nf] by simp
      from "1.IH" [OF nt False nf [symmetric] refl P1 this tg] show ?thesis .
    qed
  qed
qed

lemma run_to_invariant:
  assumes "\<And>n s s'. n \<noteq> END \<Longrightarrow> n \<noteq> target \<Longrightarrow> P s \<Longrightarrow> node_effect n s s' \<Longrightarrow> P s'"
    and "P s" and "run_to env n s t target = Some (s', t')"
  shows "P s'"
  using run_to_invariant_aux [of target P s env n t target s' t'] assms by blast

subsection \<open>Invariants of a run\<close>

lemma node_effect_confidence:
  "node_effect n s s' \<Longrightarrow> 0 \<le> confidence s \<and> confidence s \<le> 1
     \<Longrightarrow> 0 \<le> confidence s' \<and> confidence s' \<le> 1"
  unfolding node_effect_def by auto

lemma node_effect_error:
  "node_effect n s s' \<Longrightarrow> error s \<noteq> [] \<Longrightarrow> error s' \<noteq> []"
  unfolding node_effect_def by auto

lemma node_effect_narrative:
  "node_effect n s s' \<Longrightarrow> \<exists>txt. narrative s = PStr txt \<Longrightarrow> \<exists>txt. narrative s' = PStr txt"
  unfolding node_effect_def narrative_def dict_get_def by auto

lemma node_effect_charts:
  "node_effect n s s' \<Longrightarrow> n \<noteq> CreateVisualizations \<Longrightarrow> charts s = [] \<Longrightarrow> charts s' = []"
  unfolding node_effect_def by auto

subsection \<open>The two routes through the graph\<close>

lemma classify_query_ok:
  "classify_service env (query s) = Inr ct
     \<Longrightarrow> classify_query env s t = (Inr (s\<lparr>analysis_type := ct\<rparr>), t)"
  by (simp add: classify_query_def classify_query_body_def try_stage_def cbind_lift_Inr ret_def)

lemma classify_query_fail:
  "classify_service env (query s) = Inl (Exn m)
     \<Longrightarrow> classify_query env s t
           = (Inr (s\<lparr>error := ''Query classification failed: '' @ m\<rparr>), t)"
  by (simp add: classify_query_def classify_query_body_def try_stage_def cbind_lift_Inl)

lemma next_node_classify:
  "next_node ClassifyQuery s = (if error s \<noteq> [] then HandleError else GatherData)"
  by (simp add: should_continue_after_classification_def)

declare next_node.simps(1) [simp del]

lemma normal_route:
  obtains s2 t2 s3 t3 s4 t4 s5 t5 s6 t6 s7 t7 where
    "gather_data env s1 t1 = (Inr s2, t2)" "node_effect GatherData s1 s2"
    "process_data env s2 t2 = (Inr s3, t3)" "node_effect ProcessData s2 s3"
    "generate_insights env s3 t3 = (Inr s4, t4)" "node_effect GenerateInsights s3 s4"
    "create_visualizations env s4 t4 = (Inr s5, t5)" "node_effect CreateVisualizations s4 s5"
    "formulate_recommendations env s5 t5 = (Inr s6, t6)"
    "node_effect FormulateRecommendations s5 s6"
    "calculate_confidence s6 t6 = (Inr s7, t7)" "node_effect CalculateConfidence s6 s7"
    "run_from env GatherData s1 p t1 = (Inr (s7, p @ normal_path), t7)"
    "run_to env GatherData s1 t1 HandleError = None"
    "run_to env GatherData s1 t1 CreateVisualizations = Some (s4, t4)"
    "run_to env GatherData s1 t1 CalculateConfidence = Some (s6, t6)"
proof -
  from node_fn_effect [of GatherData env s1 t1] obtain s2 t2 where
    n2: "node_fn env GatherData s1 t1 = (Inr s2, t2)" and e2: "node_effect GatherData s1 s2"
    by auto
  from node_fn_effect [of ProcessData env s2 t2] obtain s3 t3 where
    n3: "node_fn env ProcessData s2 t2 = (Inr s3, t3)" and e3: "node_effect ProcessData s2 s3"
    by auto
  from node_fn_effect [of GenerateInsights env s3 t3] obtain s4 t4 where
    n4: "node_fn env GenerateInsights s3 t3 = (Inr s4, t4)"
    and e4: "node_effect GenerateInsights s3 s4"
    by auto
  from node_fn_effect [of CreateVisualizations env s4 t4] obtain s5 t5 where
    n5: "node_fn env CreateVisualizations s4 t4 = (Inr s5, t5)"
    and e5: "node_effect CreateVisualizations s4 s5"
    by auto
  from node_fn_effect [of FormulateRecommendations env s5 t5] obtain s6 t6 where
    n6: "node_fn env FormulateRecommendations s5 t5 = (Inr s6, t6)"
    and e6: "node_effect FormulateRecommendations s5 s6"
    by auto
  from node_fn_effect [of CalculateConfidence env s6 t6] obtain s7 t7 where
    n7: "node_fn env CalculateConfidence s6 t6 = (Inr s7, t7)"
    and e7: "node_effect CalculateConfidence s6 s7"
    by auto
  have r: "run_from env GatherData s1 p t1 = (Inr (s7, p @ normal_path), t7)"
    using n2 n3 n4 n5 n6 n7 by (simp add: run_from_step run_from_END normal_path_def)
  have h: "run_to env GatherData s1 t1 HandleError = None"
    using n2 n3 n4 n5 n6 n7 by (simp add: run_to_step run_to_END)
  have v: "run_to env GatherData s1 t1 CreateVisualizations = Some (s4, t4)"
    using n2 n3 n4 by (simp add: run_to_step run_to_here)
  have c: "run_to env GatherData s1 t1 CalculateConfidence = Some (s6, t6)"
    using n2 n3 n4 n5 n6 by (simp add: run_to_step run_to_here)
  from n2 n3 n4 n5 n6 n7 e2 e3 e4 e5 e6 e7 r h v c that show ?thesis by simp
qed

subsection \<open>Stage results, case by case\<close>

lemma gather_data_fail:
  assumes "\<forall>cts k. \<exists>e. search_multimodal env t (query s) cts k = Inl e"
  shows "\<exists>m t'. gather_data env s t = (Inr (s\<lparr>error := ''Data gathering failed: '' @ m\<rparr>), t')"
proof -
  define cts where "cts = (if analysis_type s \<in> set [''trend_analysis'', ''comparison'']
                 then [''table'', ''text'']
                 else if analysis_type s = ''summary'' then [''text'', ''table'', ''image'']
                 else [''text'', ''table''])"
  define k :: nat where "k = (if analysis_type s \<in> set [''trend_analysis'', ''comparison''] then 15
                        else if analysis_type s = ''summary'' then 10
                        else 8)"
  from assms obtain e where "search_multimodal env t (query s) cts k = Inl e" by blast
  then obtain m where m: "search_multimodal env t (query s) cts k = Inl (Exn m)"
    by (cases e) simp
  have "gather_data_body env s t = (Inl (Exn m), t @ [SearchCall (query s) cts k])"
    unfolding gather_data_body_def Let_def cts_def [symmetric] k_def [symmetric]
    by (simp add: cbind_def call_search_def m)
  then show ?thesis
    unfolding gather_data_def by (blast dest: try_stage_Inl)
qed

lemma process_data_no_data:
  "raw_data s = [] \<Longrightarrow> process_data env s t = (Inr (s\<lparr>processed_data := no_data_result\<rparr>), t)"
  by (simp add: process_data_def process_data_body_def try_stage_def ret_def Let_def)


lemma generate_insights_str:
  assumes "map_of (processed_data s) ''analysis'' = Some (PStr txt)"
  shows "generate_insights env s t =
     (case generate_response env t (insights_prompt env (PStr txt) (raw_data s)) of
        Inl e \<Rightarrow> (case e of Exn m \<Rightarrow>
                    (Inr (s\<lparr>error := ''Insight generation failed: '' @ m\<rparr>),
                     t @ [LLMCall (insights_prompt env (PStr txt) (raw_data s))]))
      | Inr response \<Rightarrow>
          (Inr (s\<lparr>insights :=
                   (case json_loads env response of
                      Inr (PList xs) \<Rightarrow> xs
                    | Inr _ \<Rightarrow> [PStr response]
                    | Inl _ \<Rightarrow> map PStr (extract_insights_fallback txt))\<rparr>),
           t @ [LLMCall (insights_prompt env (PStr txt) (raw_data s))]))"
  using assms
  by (auto simp: generate_insights_def generate_insights_body_def try_stage_def
        extract_insights_def cbind_def call_llm_def ret_def
        split: sum.splits exn.splits pyval.splits)

lemma create_visualizations_skip:
  "raw_data s = [] \<or> analysis_type s \<notin> set [''trend_analysis'', ''comparison'']
     \<Longrightarrow> create_visualizations env s t = (Inr (s\<lparr>charts := []\<rparr>), t)"
  by (auto simp: create_visualizations_def create_visualizations_body_def try_stage_def
        ret_def Let_def)

lemma create_visualizations_call:
  assumes "raw_data s \<noteq> []" "analysis_type s \<in> set [''trend_analysis'', ''comparison'']"
  shows "create_visualizations env s t =
     (case generate_chart_from_query env t (query s) (table_docs_of env (raw_data s)) of
        Inl e \<Rightarrow> (case e of Exn m \<Rightarrow>
                    (Inr (s\<lparr>error := ''Visualization creation failed: '' @ m\<rparr>),
                     t @ [ChartCall (query s) (table_docs_of env (raw_data s))]))
      | Inr chart_result \<Rightarrow>
          (Inr (s\<lparr>charts := chart_result\<rparr>),
           t @ [ChartCall (query s) (table_docs_of env (raw_data s))]))"
  using assms
  by (auto simp: create_visualizations_def create_visualizations_body_def try_stage_def
        cbind_def call_chart_def ret_def Let_def split: sum.splits exn.splits)

lemma formulate_recommendations_joined:
  assumes "join_strs ''; '' (insights s) 0 = Inr joined"
  shows "formulate_recommendations env s t =
     (case generate_response env t
             (recommendations_prompt env (analysis_type s) (narrative s) joined) of
        Inl e \<Rightarrow> (case e of Exn m \<Rightarrow>
                    (Inr (s\<lparr>error := ''Recommendation generation failed: '' @ m\<rparr>),
                     t @ [LLMCall (recommendations_prompt env (analysis_type s)
                                     (narrative s) joined)]))
      | Inr response \<Rightarrow>
          (Inr (s\<lparr>recommendations :=
                   (case json_loads env response of
                      Inr (PList xs) \<Rightarrow> xs
                    | Inr _ \<Rightarrow> [PStr response]
                    | Inl _ \<Rightarrow> map PStr (recommendations_fallback response))\<rparr>),
           t @ [LLMCall (recommendations_prompt env (analysis_type s)
                           (narrative s) joined)]))"
  using assms
  by (auto simp: formulate_recommendations_def formulate_recommendations_body_def try_stage_def
        cbind_def call_llm_def ret_def lift_def Let_def narrative_def
        split: sum.splits exn.splits)

lemma calculate_confidence_str:
  assumes "narrative s = PStr txt"
  shows "calculate_confidence s t =
     (Inr (s\<lparr>confidence := confidence_spec (length (raw_data s)) (length txt)
                  (length (insights s)) (charts s \<noteq> []) (analysis_type s)\<rparr>), t)"
  using assms
  by (simp add: calculate_confidence_def try_stage_def calculate_confidence_body_eq narrative_def)

lemma node_effect_analysis_type:
  "node_effect n s s' \<Longrightarrow> n \<noteq> ClassifyQuery \<Longrightarrow> analysis_type s' = analysis_type s"
  unfolding node_effect_def by auto

lemma clamp01_mono: "x \<le> y \<Longrightarrow> clamp01 x \<le> clamp01 y"
  by (simp add: clamp01_def max_def min_def)

lemma confidence_spec_mono:
  assumes "nd \<le> nd'"
  shows "confidence_spec nd nn ni hc a \<le> confidence_spec nd' nn ni hc a"
proof -
  have "(if nd > 50 then 0.2 else if nd > 20 then 0.1 else (0::real))
          \<le> (if nd' > 50 then 0.2 else if nd' > 20 then 0.1 else 0)"
    using assms by auto
  then show ?thesis
    unfolding confidence_spec_def by (intro clamp01_mono add_mono order_refl)
qed

subsection \<open>A run against the stub collaborators\<close>

lemma stub_gather:
  "gather_data (stub_env r) s t =
     (Inr (s\<lparr>raw_data := []\<rparr>),
      t @ [SearchCall (query s)
             (if analysis_type s \<in> set [''trend_analysis'', ''comparison'']
              then [''table'', ''text'']
              else if analysis_type s = ''summary'' then [''text'', ''table'', ''image'']
              else [''text'', ''table''])
             (if analysis_type s \<in> set [''trend_analysis'', ''comparison''] then 15
              else if analysis_type s = ''summary'' then 10 else 8)])"
  by (simp add: gather_data_def gather_data_body_def try_stage_def cbind_def call_search_def
        ret_def stub_env_def extract_table_data_def search_get_def Let_def)

lemma stub_env_simps:
  "classify_service (stub_env r) = (\<lambda>q. Inr (classify_query_type q))"
  "generate_response (stub_env r) = (\<lambda>t prompt. Inr r)"
  "json_loads (stub_env r) = json_loads_stub"
  by (simp_all add: stub_env_def)

lemma stub_run:
  assumes cq: "classify_query_type q = ct"
    and found: "(case json_loads_stub r of
                   Inr (PList xs) \<Rightarrow> xs
                 | Inr _ \<Rightarrow> [PStr r]
                 | Inl _ \<Rightarrow> map PStr (extract_insights_fallback
                                         ''No relevant data found for analysis.'')) = found"
    and joined: "join_strs ''; '' found 0 = Inr joined"
    and recs: "(case json_loads_stub r of
                  Inr (PList xs) \<Rightarrow> xs
                | Inr _ \<Rightarrow> [PStr r]
                | Inl _ \<Rightarrow> map PStr (recommendations_fallback r)) = recs"
  shows "\<exists>t4 t6.
      run_to (stub_env r) ClassifyQuery (initial_state q None) [] CreateVisualizations
        = Some ((initial_state q None)\<lparr>analysis_type := ct, raw_data := [],
                   processed_data := no_data_result, insights := found\<rparr>, t4)
    \<and> run_to (stub_env r) ClassifyQuery (initial_state q None) [] CalculateConfidence
        = Some ((initial_state q None)\<lparr>analysis_type := ct, raw_data := [],
                   processed_data := no_data_result, insights := found, charts := [],
                   recommendations := recs\<rparr>, t6)
    \<and> ainvoke (stub_env r) (initial_state q None) []
        = (Inr ((initial_state q None)\<lparr>analysis_type := ct, raw_data := [],
                   processed_data := no_data_result, insights := found, charts := [],
                   recommendations := recs,
                   confidence := confidence_spec 0 36 (length found) False ct\<rparr>,
                ClassifyQuery # normal_path), t6)"
proof -
  let ?env = "stub_env r"
  define s0 where "s0 = initial_state q None"
  define s1 where "s1 = s0\<lparr>analysis_type := ct\<rparr>"
  define s2 where "s2 = s1\<lparr>raw_data := []\<rparr>"
  define s3 where "s3 = s2\<lparr>processed_data := no_data_result\<rparr>"
  define s4 where "s4 = s3\<lparr>insights := found\<rparr>"
  define s5 where "s5 = s4\<lparr>charts := []\<rparr>"
  define s6 where "s6 = s5\<lparr>recommendations := recs\<rparr>"
  define s7 where "s7 = s6\<lparr>confidence := confidence_spec 0 36 (length found) False ct\<rparr>"
  define t2 where "t2 = [SearchCall q
             (if ct \<in> set [''trend_analysis'', ''comparison'']
              then [''table'', ''text'']
              else if ct = ''summary'' then [''text'', ''table'', ''image'']
              else [''text'', ''table''])
             (if ct \<in> set [''trend_analysis'', ''comparison''] then 15
              else if ct = ''summary'' then 10 else (8::nat))]"
  define t4 where "t4 = t2 @ [LLMCall (insights_prompt ?env
                                 (PStr ''No relevant data found for analysis.'') [])]"
  define t6 where "t6 = t4 @ [LLMCall (recommendations_prompt ?env ct
                                 (PStr ''No relevant data found for analysis.'') joined)]"
  have q0: "query s0 = q" "error s0 = []" by (simp_all add: s0_def initial_state_def)
  have n1: "node_fn ?env ClassifyQuery s0 [] = (Inr s1, [])"
    unfolding s1_def using classify_query_ok [of ?env s0 ct "[]"] cq q0
    by (simp add: stub_env_simps)
  have x1: "next_node ClassifyQuery s1 = GatherData"
    using q0 by (simp add: next_node_classify s1_def)
  have n2: "node_fn ?env GatherData s1 [] = (Inr s2, t2)"
    unfolding s2_def t2_def using q0 by (simp add: stub_gather s1_def)
  have n3: "node_fn ?env ProcessData s2 t2 = (Inr s3, t2)"
    unfolding s3_def by (simp add: process_data_no_data s2_def)
  have a3: "map_of (processed_data s3) ''analysis''
              = Some (PStr ''No relevant data found for analysis.'')"
    by (simp add: s3_def no_data_result_def)
  have r3: "raw_data s3 = []" by (simp add: s3_def s2_def)
  have n4: "node_fn ?env GenerateInsights s3 t2 = (Inr s4, t4)"
    unfolding s4_def t4_def
    using generate_insights_str [OF a3, of ?env t2] found
    by (simp add: stub_env_simps r3)
  have n5: "node_fn ?env CreateVisualizations s4 t4 = (Inr s5, t4)"
    unfolding s5_def by (simp add: create_visualizations_skip s4_def r3)
  have i5: "insights s5 = found" by (simp add: s5_def s4_def)
  have a5: "narrative s5 = PStr ''No relevant data found for analysis.''"
    using a3 by (simp add: narrative_def dict_get_def s5_def s4_def)
  have y5: "analysis_type s5 = ct" by (simp add: s5_def s4_def s3_def s2_def s1_def)
  have n6: "node_fn ?env FormulateRecommendations s5 t4 = (Inr s6, t6)"
    unfolding s6_def t6_def
    using formulate_recommendations_joined [of s5 joined ?env t4] joined recs
    by (simp add: stub_env_simps i5 a5 y5)
  have a6: "narrative s6 = PStr ''No relevant data found for analysis.''"
    using a5 by (simp add: narrative_def s6_def)
  have f6: "raw_data s6 = []" "insights s6 = found" "charts s6 = []" "analysis_type s6 = ct"
    using r3 i5 y5 by (simp_all add: s6_def s5_def s4_def)
  have len: "length ''No relevant data found for analysis.'' = 36" by simp
  have cc: "calculate_confidence s6 t6 =
              (Inr (s6\<lparr>confidence := confidence_spec (length (raw_data s6)) 36
                     (length (insights s6)) (charts s6 \<noteq> []) (analysis_type s6)\<rparr>), t6)"
    using calculate_confidence_str [OF a6, of t6] unfolding len .
  have n7: "node_fn ?env CalculateConfidence s6 t6 = (Inr s7, t6)"
    unfolding s7_def using cc f6 by simp
  have reach: "run_to ?env ClassifyQuery s0 [] CalculateConfidence = Some (s6, t6)"
    using n1 x1 n2 n3 n4 n5 n6 by (simp add: run_to_step run_to_here)
  have reach4: "run_to ?env ClassifyQuery s0 [] CreateVisualizations = Some (s4, t4)"
    using n1 x1 n2 n3 n4 by (simp add: run_to_step run_to_here)
  have e4: "s4 = (initial_state q None)\<lparr>analysis_type := ct, raw_data := [],
                   processed_data := no_data_result, insights := found\<rparr>"
    by (simp add: s4_def s3_def s2_def s1_def s0_def)
  have run: "ainvoke ?env s0 [] = (Inr (s7, ClassifyQuery # normal_path), t6)"
    unfolding ainvoke_def
    using n1 x1 n2 n3 n4 n5 n6 n7 by (simp add: run_from_step run_from_END normal_path_def)
  have e6: "s6 = (initial_state q None)\<lparr>analysis_type := ct, raw_data := [],
                   processed_data := no_data_result, insights := found, charts := [],
                   recommendations := recs\<rparr>"
    by (simp add: s6_def s5_def s4_def s3_def s2_def s1_def s0_def)
  have e7: "s7 = (initial_state q None)\<lparr>analysis_type := ct, raw_data := [],
                   processed_data := no_data_result, insights := found, charts := [],
                   recommendations := recs,
                   confidence := confidence_spec 0 36 (length found) False ct\<rparr>"
    by (simp add: s7_def e6)
  from reach4 reach run show ?thesis unfolding e4 e6 e7 s0_def by blast
qed

lemma stub_ok_facts:
  "classify_query_type ''sales'' = ''general''"
  "(case json_loads_stub ''ok'' of
      Inr (PList xs) \<Rightarrow> xs
    | Inr _ \<Rightarrow> [PStr ''ok'']
    | Inl _ \<Rightarrow> map PStr (extract_insights_fallback
                            ''No relevant data found for analysis.'')) = []"
  "join_strs ''; '' [] 0 = Inr []"
  "(case json_loads_stub ''ok'' of
      Inr (PList xs) \<Rightarrow> xs
    | Inr _ \<Rightarrow> [PStr ''ok'']
    | Inl _ \<Rightarrow> map PStr (recommendations_fallback ''ok'')) = []"
  by code_simp+

lemma stub_six_facts:
  "(case json_loads_stub six_items of
      Inr (PList xs) \<Rightarrow> xs
    | Inr _ \<Rightarrow> [PStr six_items]
    | Inl _ \<Rightarrow> map PStr (extract_insights_fallback
                            ''No relevant data found for analysis.''))
     = [PStr ''a'', PStr ''b'', PStr ''c'', PStr ''d'', PStr ''e'', PStr ''f'']"
  "join_strs ''; '' [PStr ''a'', PStr ''b'', PStr ''c'', PStr ''d'', PStr ''e'', PStr ''f''] 0
     = Inr ''a; b; c; d; e; f''"
  "(case json_loads_stub six_items of
      Inr (PList xs) \<Rightarrow> xs
    | Inr _ \<Rightarrow> [PStr six_items]
    | Inl _ \<Rightarrow> map PStr (recommendations_fallback six_items))
     = [PStr ''a'', PStr ''b'', PStr ''c'', PStr ''d'', PStr ''e'', PStr ''f'']"
  by (simp_all add: json_loads_stub_def)

subsection \<open>Stages and binds as case distinctions\<close>







subsection \<open>The routines of ProcessData\<close>











subsection \<open>What the prompts embed\<close>






subsection \<open>When the basic statistics can be computed\<close>








section \<open>Properties of the classifier and of AnalyzeQuery\<close>

text \<open>
  C5. The Query Classifier depends on the query only through its lower-cased text and
  agrees with the priority table trend, comparison, summary, prediction, default general
  (first match wins). The query "trend over time vs last year" matches a comparison
  keyword as well as trend keywords, and is classified as trend analysis. Being a function
  of the text, equal texts give equal types.
\<close>

theorem classify_query_type_priority:
  "classify_query_type qtext = classify_spec qtext
   \<and> (py_lower q1 = py_lower q2 \<longrightarrow> classify_query_type q1 = classify_query_type q2)
   \<and> any_in [''compare'', ''vs'', ''versus'', ''difference'', ''between'']
         (py_lower ''trend over time vs last year'')
   \<and> classify_query_type ''trend over time vs last year'' = ''trend_analysis''"
proof -
  have a: "classify_query_type qtext = classify_spec qtext"
    by (simp add: classify_query_type_def classify_spec_def keyword_priority_def Let_def)
  have b: "py_lower q1 = py_lower q2 \<longrightarrow> classify_query_type q1 = classify_query_type q2"
    by (simp add: classify_query_type_def)
  have c: "any_in [''compare'', ''vs'', ''versus'', ''difference'', ''between'']
         (py_lower ''trend over time vs last year'')"
    by code_simp
  have d: "classify_query_type ''trend over time vs last year'' = ''trend_analysis''"
    by code_simp
  from a b c d show ?thesis by blast
qed

theorem classify_query_type_priority_witness:
  "py_lower ''Growth'' = py_lower ''GROWTH''
   \<and> classify_query_type ''Growth'' = classify_query_type ''GROWTH''
   \<and> classify_query_type ''Growth'' = ''trend_analysis''"
proof -
  have h: "py_lower ''Growth'' = py_lower ''GROWTH''" by code_simp
  have v: "classify_query_type ''Growth'' = ''trend_analysis''" by code_simp
  from classify_query_type_priority [of "''Growth''" "''Growth''" "''GROWTH''"]
  have "py_lower ''Growth'' = py_lower ''GROWTH''
        \<longrightarrow> classify_query_type ''Growth'' = classify_query_type ''GROWTH''"
    by blast
  with h v show ?thesis by blast
qed

text \<open>
  C9. AnalyzeQuery depends on the query text only: it selects text always, table exactly
  when the lower-cased query contains one of the table keywords, image exactly when it
  contains one of the image keywords, and sets requires\_charts exactly when it contains
  one of the chart keywords. Nothing else of the state changes.
\<close>

theorem analyze_query_content_types:
  "\<exists>m. rag_meta (analyze_query state) = Some m
     \<and> set (content_types m) =
         {''text''}
         \<union> (if any_in [''table'', ''data'', ''statistics'', ''numbers'', ''trend'', ''chart'']
                 (py_lower (rag_query state)) then {''table''} else {})
         \<union> (if any_in [''image'', ''figure'', ''diagram'', ''photo'', ''picture'']
                 (py_lower (rag_query state)) then {''image''} else {})
     \<and> distinct (content_types m)
     \<and> requires_charts m =
         any_in [''trend'', ''chart'', ''graph'', ''visualization''] (py_lower (rag_query state))
     \<and> analyze_query state = state\<lparr>rag_meta := Some m\<rparr>"
  by (auto simp add: analyze_query_def Let_def)

theorem analyze_query_content_types_witness:
  "\<exists>m. rag_meta (analyze_query \<lparr>rag_query = ''Show the sales Chart'', retrieved_docs = [],
        rag_context = [], rag_response = [], chart_data = [], rag_meta = None\<rparr>) = Some m
     \<and> set (content_types m) = {''text'', ''table''} \<and> requires_charts m"
proof -
  let ?s = "\<lparr>rag_query = ''Show the sales Chart'', retrieved_docs = [],
        rag_context = [], rag_response = [], chart_data = [], rag_meta = None\<rparr>"
  have q: "py_lower (rag_query ?s) = ''show the sales chart''" by code_simp
  have t: "any_in [''table'', ''data'', ''statistics'', ''numbers'', ''trend'', ''chart'']
             ''show the sales chart''" by code_simp
  have i: "\<not> any_in [''image'', ''figure'', ''diagram'', ''photo'', ''picture'']
             ''show the sales chart''" by code_simp
  have c: "any_in [''trend'', ''chart'', ''graph'', ''visualization''] ''show the sales chart''"
    by code_simp
  from analyze_query_content_types [of ?s] obtain m where
    m: "rag_meta (analyze_query ?s) = Some m"
    and cts: "set (content_types m) =
         {''text''}
         \<union> (if any_in [''table'', ''data'', ''statistics'', ''numbers'', ''trend'', ''chart'']
                 (py_lower (rag_query ?s)) then {''table''} else {})
         \<union> (if any_in [''image'', ''figure'', ''diagram'', ''photo'', ''picture'']
                 (py_lower (rag_query ?s)) then {''image''} else {})"
    and rc: "requires_charts m =
         any_in [''trend'', ''chart'', ''graph'', ''visualization''] (py_lower (rag_query ?s))"
    by blast
  from cts have "set (content_types m) = {''text'', ''table''}"
    unfolding q using t i by auto
  moreover from rc have "requires_charts m" unfolding q using c by simp
  ultimately show ?thesis using m by blast
qed

section \<open>The error route\<close>

text \<open>
  C1. When ClassifyQuery throws, its handler writes a non-empty error, the routing
  function answers "error" and the graph runs HandleError and nothing else. The final
  state has the narrative "Analytics processing encountered an error: " followed by the
  error, the fixed insight, an empty chart, the fixed recommendation and confidence 0.1,
  and the entry point returns these as a result instead of raising.
\<close>

theorem classify_failure_handled:
  assumes "classify_service env q = Inl (Exn m)"
  shows "\<exists>s1 final.
           s1 = (initial_state q a)\<lparr>error := ''Query classification failed: '' @ m\<rparr>
         \<and> classify_query env (initial_state q a) t = (Inr s1, t)
         \<and> error s1 \<noteq> []
         \<and> should_continue_after_classification s1 = ''error''
         \<and> next_node ClassifyQuery s1 = HandleError
         \<and> ainvoke env (initial_state q a) t = (Inr (final, [ClassifyQuery, HandleError]), t)
         \<and> narrative final
             = PStr (''Analytics processing encountered an error: '' @ error s1)
         \<and> insights final = [PStr ''Analysis could not be completed due to technical issues.'']
         \<and> charts final = []
         \<and> recommendations final
             = [PStr ''Please try rephrasing your query or contact support.'']
         \<and> confidence final = 0.1
         \<and> process_analytics_query env q a t =
              (Inr \<lparr>r_query = q,
                    r_analysis_type = Some (case a of Some x \<Rightarrow> x | None \<Rightarrow> []),
                    r_analysis = PStr (''Analytics processing encountered an error: '' @ error s1),
                    r_insights = [PStr ''Analysis could not be completed due to technical issues.''],
                    r_charts = [],
                    r_recommendations
                      = [PStr ''Please try rephrasing your query or contact support.''],
                    r_confidence = 0.1,
                    r_data_points = 0,
                    r_error = error s1\<rparr>, t)"
proof -
  define s1 where "s1 = (initial_state q a)\<lparr>error := ''Query classification failed: '' @ m\<rparr>"
  define final where "final = s1\<lparr>processed_data :=
              [(''analysis'', PStr (''Analytics processing encountered an error: '' @ error s1)),
               (''statistics'', PDict []),
               (''summary'', PStr ''Unable to complete analysis due to technical issues.'')],
            insights := [PStr ''Analysis could not be completed due to technical issues.''],
            charts := [],
            recommendations := [PStr ''Please try rephrasing your query or contact support.''],
            confidence := 0.1\<rparr>"
  have q0: "query (initial_state q a) = q" by (simp add: initial_state_def)
  have c: "classify_query env (initial_state q a) t = (Inr s1, t)"
    unfolding s1_def using classify_query_fail [of env "initial_state q a" m t] assms q0 by simp
  have e: "error s1 \<noteq> []" by (simp add: s1_def)
  have r: "should_continue_after_classification s1 = ''error''"
    using e by (simp add: should_continue_after_classification_def)
  have n: "next_node ClassifyQuery s1 = HandleError"
    using e by (simp add: next_node_classify)
  have h: "node_fn env HandleError s1 t = (Inr final, t)"
    unfolding final_def by (simp add: handle_error_eq)
  have "run_from env ClassifyQuery (initial_state q a) [] t
          = run_from env HandleError s1 [ClassifyQuery] t"
    using run_from_step [of ClassifyQuery env "initial_state q a" t s1 t "[]"] c n by simp
  also have "\<dots> = run_from env END final [ClassifyQuery, HandleError] t"
    using run_from_step [of HandleError env s1 t final t "[ClassifyQuery]"] h by simp
  finally have ai: "ainvoke env (initial_state q a) t
                      = (Inr (final, [ClassifyQuery, HandleError]), t)"
    by (simp add: ainvoke_def run_from_END)
  have f1: "narrative final = PStr (''Analytics processing encountered an error: '' @ error s1)"
    by (simp add: final_def narrative_def dict_get_def)
  have f2: "insights final = [PStr ''Analysis could not be completed due to technical issues.'']"
    by (simp add: final_def)
  have f3: "charts final = []" by (simp add: final_def)
  have f4: "recommendations final
              = [PStr ''Please try rephrasing your query or contact support.'']"
    by (simp add: final_def)
  have f5: "confidence final = 0.1" by (simp add: final_def)
  have f6: "analysis_type final = (case a of Some x \<Rightarrow> x | None \<Rightarrow> [])"
    and f7: "raw_data final = []" and f8: "error final = error s1"
    by (simp_all add: final_def s1_def initial_state_def)
  have p: "process_analytics_query env q a t =
              (Inr \<lparr>r_query = q,
                    r_analysis_type = Some (case a of Some x \<Rightarrow> x | None \<Rightarrow> []),
                    r_analysis = PStr (''Analytics processing encountered an error: '' @ error s1),
                    r_insights = [PStr ''Analysis could not be completed due to technical issues.''],
                    r_charts = [],
                    r_recommendations
                      = [PStr ''Please try rephrasing your query or contact support.''],
                    r_confidence = 0.1,
                    r_data_points = 0,
                    r_error = error s1\<rparr>, t)"
    unfolding process_analytics_query_def ai
    using f1 f2 f3 f4 f5 f6 f7 f8 by (simp add: narrative_def)
  from c e r n ai f1 f2 f3 f4 f5 p s1_def show ?thesis by blast
qed

theorem classify_failure_handled_witness:
  "classify_service ((stub_env ''ok'')\<lparr>classify_service := (\<lambda>q. Inl (Exn ''boom''))\<rparr>) ''sales''
     = Inl (Exn ''boom'')
   \<and> fst (process_analytics_query
            ((stub_env ''ok'')\<lparr>classify_service := (\<lambda>q. Inl (Exn ''boom''))\<rparr>)
            ''sales'' None []) =
       Inr \<lparr>r_query = ''sales'',
            r_analysis_type = Some [],
            r_analysis = PStr ''Analytics processing encountered an error: Query classification failed: boom'',
            r_insights = [PStr ''Analysis could not be completed due to technical issues.''],
            r_charts = [],
            r_recommendations = [PStr ''Please try rephrasing your query or contact support.''],
            r_confidence = 0.1,
            r_data_points = 0,
            r_error = ''Query classification failed: boom''\<rparr>"
proof -
  let ?env = "(stub_env ''ok'')\<lparr>classify_service := (\<lambda>q. Inl (Exn ''boom''))\<rparr>"
  have h: "classify_service ?env ''sales'' = Inl (Exn ''boom'')" by simp
  from classify_failure_handled [OF h, of None "[]"] h show ?thesis by auto
qed

section \<open>Totality of the entry point\<close>

text \<open>
  C2. For every query and every behaviour of the collaborators, no exception leaves the
  graph, process\_analytics\_query returns a result, and the confidence of that result
  lies between 0 and 1.
\<close>

theorem process_analytics_query_never_raises:
  "\<exists>final path r t'.
      ainvoke env (initial_state q a) t = (Inr (final, path), t')
    \<and> process_analytics_query env q a t = (Inr r, t')
    \<and> 0 \<le> r_confidence r \<and> r_confidence r \<le> 1"
proof -
  have "\<exists>s' p' t'. run_from env ClassifyQuery (initial_state q a) [] t = (Inr (s', p'), t')
          \<and> (0 \<le> confidence s' \<and> confidence s' \<le> 1)"
    by (rule run_from_invariant) (auto dest: node_effect_confidence simp: initial_state_def)
  then obtain final path t' where
    ai: "ainvoke env (initial_state q a) t = (Inr (final, path), t')"
    and c: "0 \<le> confidence final" "confidence final \<le> 1"
    unfolding ainvoke_def by blast
  from ai c show ?thesis
    unfolding process_analytics_query_def by simp
qed

theorem process_analytics_query_never_raises_witness:
  "\<exists>r t'.
      process_analytics_query
        ((stub_env ''ok'')\<lparr>search_multimodal := (\<lambda>t q cts k. Inl (Exn ''down'')),
                           generate_response := (\<lambda>t prompt. Inl (Exn ''quota'')),
                           generate_chart_from_query := (\<lambda>t q docs. Inl (Exn ''render''))\<rparr>)
        ''compare a vs b'' None [] = (Inr r, t')
    \<and> 0 \<le> r_confidence r \<and> r_confidence r \<le> 1"
  using process_analytics_query_never_raises
    [of "(stub_env ''ok'')\<lparr>search_multimodal := (\<lambda>t q cts k. Inl (Exn ''down'')),
                            generate_response := (\<lambda>t prompt. Inl (Exn ''quota'')),
                            generate_chart_from_query := (\<lambda>t q docs. Inl (Exn ''render''))\<rparr>"
        "''compare a vs b''" None "[]"]
  by blast

section \<open>The normal route\<close>

text \<open>
  C10. When ClassifyQuery completes without raising, the run executes GatherData,
  ProcessData, GenerateInsights, CreateVisualizations, FormulateRecommendations and
  CalculateConfidence in this order and never enters HandleError, whatever the later
  stages catch. In particular, when Retrieval raises in GatherData the run still
  executes all of them, and the final state carries a non-empty error next to the
  analysis type that ClassifyQuery produced.
\<close>

theorem handle_error_only_after_classify:
  assumes "classify_service env q = Inr ct"
  shows "\<exists>final t'.
           ainvoke env (initial_state q a) t = (Inr (final, ClassifyQuery # normal_path), t')
         \<and> HandleError \<notin> set (ClassifyQuery # normal_path)
         \<and> run_to env ClassifyQuery (initial_state q a) t HandleError = None
         \<and> analysis_type final = ct
         \<and> ((\<forall>cts k. \<exists>e. search_multimodal env t q cts k = Inl e) \<longrightarrow> error final \<noteq> [])"
proof -
  define s1 where "s1 = (initial_state q a)\<lparr>analysis_type := ct\<rparr>"
  have q0: "query (initial_state q a) = q" by (simp add: initial_state_def)
  have c: "node_fn env ClassifyQuery (initial_state q a) t = (Inr s1, t)"
    unfolding s1_def using classify_query_ok [of env "initial_state q a" ct t] assms q0 by simp
  have e: "error s1 = []" by (simp add: s1_def initial_state_def)
  then have n: "next_node ClassifyQuery s1 = GatherData" by (simp add: next_node_classify)
  obtain s2 t2 s3 t3 s4 t4 s5 t5 s6 t6 s7 t7 where
    g: "gather_data env s1 t = (Inr s2, t2)" and e2: "node_effect GatherData s1 s2"
    and e3: "node_effect ProcessData s2 s3" and e4: "node_effect GenerateInsights s3 s4"
    and e5: "node_effect CreateVisualizations s4 s5"
    and e6: "node_effect FormulateRecommendations s5 s6"
    and e7: "node_effect CalculateConfidence s6 s7"
    and r: "run_from env GatherData s1 [ClassifyQuery] t
              = (Inr (s7, [ClassifyQuery] @ normal_path), t7)"
    and h: "run_to env GatherData s1 t HandleError = None"
    by (rule normal_route [of env s1 t "[ClassifyQuery]"]) blast
  have ai: "ainvoke env (initial_state q a) t = (Inr (s7, ClassifyQuery # normal_path), t7)"
    unfolding ainvoke_def
    using run_from_step [of ClassifyQuery env "initial_state q a" t s1 t "[]"] c n r by simp
  have nh: "HandleError \<notin> set (ClassifyQuery # normal_path)"
    by (simp add: normal_path_def)
  have rt: "run_to env ClassifyQuery (initial_state q a) t HandleError = None"
    using run_to_step [of ClassifyQuery HandleError env "initial_state q a" t s1 t] c n h
    by simp
  have "analysis_type s1 = ct" by (simp add: s1_def)
  with e2 e3 e4 e5 e6 e7 have at: "analysis_type s7 = ct"
    by (simp add: node_effect_analysis_type)
  have er: "error s7 \<noteq> []" if f: "\<forall>cts k. \<exists>e. search_multimodal env t q cts k = Inl e"
  proof -
    have "query s1 = q" by (simp add: s1_def initial_state_def)
    with f gather_data_fail [of env t s1] g have "error s2 \<noteq> []" by auto
    with e3 e4 e5 e6 e7 show ?thesis by (blast dest: node_effect_error)
  qed
  from ai nh rt at er show ?thesis by blast
qed

theorem handle_error_only_after_classify_witness:
  "classify_service ((stub_env ''ok'')\<lparr>search_multimodal := (\<lambda>t q cts k. Inl (Exn ''down''))\<rparr>)
       ''sales'' = Inr ''general''
   \<and> (\<exists>final t'.
         ainvoke ((stub_env ''ok'')\<lparr>search_multimodal := (\<lambda>t q cts k. Inl (Exn ''down''))\<rparr>)
           (initial_state ''sales'' None) []
           = (Inr (final, ClassifyQuery # normal_path), t')
       \<and> analysis_type final = ''general'' \<and> error final \<noteq> [])"
proof -
  let ?env = "(stub_env ''ok'')\<lparr>search_multimodal := (\<lambda>t q cts k. Inl (Exn ''down''))\<rparr>"
  have cq: "classify_query_type ''sales'' = ''general''" by code_simp
  have h: "classify_service ?env ''sales'' = Inr ''general''"
    by (simp add: stub_env_def cq)
  have f: "\<forall>cts k. \<exists>e. search_multimodal ?env [] ''sales'' cts k = Inl e" by simp
  from handle_error_only_after_classify [OF h, of None "[]"] f h show ?thesis by blast
qed

section \<open>The Confidence Scorer\<close>

text \<open>
  C3. Every state with which a run enters CalculateConfidence has a string (possibly
  empty) as narrative, and the stage sets the confidence to the clamp to [0, 1] of
  0.5, plus 0.2 for more than 50 records or else 0.1 for more than 20, plus 0.1 for a
  narrative longer than 200 characters, plus 0.1 for at least 3 insights, plus 0.1 for a
  non-empty chart, plus 0.05 for the types trend\_analysis and summary; nothing else of
  the state changes. The value is monotonic in the number of records.
\<close>

theorem calculate_confidence_formula:
  "(run_to env ClassifyQuery (initial_state q a) t0 CalculateConfidence = Some (s, t) \<longrightarrow>
      (\<exists>txt. narrative s = PStr txt
         \<and> calculate_confidence s t =
             (Inr (s\<lparr>confidence :=
                      max 0.0 (min 1.0
                        (0.5
                         + (if length (raw_data s) > 50 then 0.2
                            else if length (raw_data s) > 20 then 0.1 else 0)
                         + (if length txt > 200 then 0.1 else 0)
                         + (if length (insights s) \<ge> 3 then 0.1 else 0)
                         + (if charts s \<noteq> [] then 0.1 else 0)
                         + (if analysis_type s = ''trend_analysis''
                               \<or> analysis_type s = ''summary'' then 0.05 else 0)))\<rparr>), t)))
   \<and> (nd \<le> nd' \<longrightarrow> confidence_spec nd nn ni hc an \<le> confidence_spec nd' nn ni hc an)"
proof -
  have "\<exists>txt. narrative s = PStr txt
         \<and> calculate_confidence s t =
             (Inr (s\<lparr>confidence :=
                      max 0.0 (min 1.0
                        (0.5
                         + (if length (raw_data s) > 50 then 0.2
                            else if length (raw_data s) > 20 then 0.1 else 0)
                         + (if length txt > 200 then 0.1 else 0)
                         + (if length (insights s) \<ge> 3 then 0.1 else 0)
                         + (if charts s \<noteq> [] then 0.1 else 0)
                         + (if analysis_type s = ''trend_analysis''
                               \<or> analysis_type s = ''summary'' then 0.05 else 0)))\<rparr>), t)"
    if reach: "run_to env ClassifyQuery (initial_state q a) t0 CalculateConfidence = Some (s, t)"
  proof -
    have init: "\<exists>txt. narrative (initial_state q a) = PStr txt"
      by (simp add: narrative_def dict_get_def initial_state_def)
    have "\<exists>txt. narrative s = PStr txt"
      by (rule run_to_invariant [where P = "\<lambda>s. \<exists>txt. narrative s = PStr txt", OF _ init reach])
         (rule node_effect_narrative)
    then obtain ntext where nar: "narrative s = PStr ntext" by blast
    from calculate_confidence_str [OF nar, of t] nar show ?thesis
      unfolding confidence_spec_def clamp01_def by blast
  qed
  then show ?thesis using confidence_spec_mono by blast
qed

theorem calculate_confidence_formula_witness:
  "\<exists>t. run_to (stub_env ''ok'') ClassifyQuery (initial_state ''sales'' None) []
           CalculateConfidence
         = Some ((initial_state ''sales'' None)\<lparr>analysis_type := ''general'', raw_data := [],
                   processed_data := no_data_result, insights := [], charts := [],
                   recommendations := []\<rparr>, t)
     \<and> calculate_confidence
           ((initial_state ''sales'' None)\<lparr>analysis_type := ''general'', raw_data := [],
                   processed_data := no_data_result, insights := [], charts := [],
                   recommendations := []\<rparr>) t
         = (Inr ((initial_state ''sales'' None)\<lparr>analysis_type := ''general'', raw_data := [],
                   processed_data := no_data_result, insights := [], charts := [],
                   recommendations := [], confidence := 0.5\<rparr>), t)"
proof -
  let ?s = "(initial_state ''sales'' None)\<lparr>analysis_type := ''general'', raw_data := [],
                   processed_data := no_data_result, insights := [], charts := [],
                   recommendations := []\<rparr>"
  from stub_run [OF stub_ok_facts] obtain t where
    reach: "run_to (stub_env ''ok'') ClassifyQuery (initial_state ''sales'' None) []
              CalculateConfidence = Some (?s, t)"
    by blast
  have nar: "narrative ?s = PStr ''No relevant data found for analysis.''"
    by (simp add: narrative_def dict_get_def no_data_result_def)
  from calculate_confidence_formula [of "stub_env ''ok''" "''sales''" None "[]" ?s t 0 0] reach
  obtain ntext where
    n: "narrative ?s = PStr ntext"
    and c: "calculate_confidence ?s t =
             (Inr (?s\<lparr>confidence :=
                      max 0.0 (min 1.0
                        (0.5
                         + (if length (raw_data ?s) > 50 then 0.2
                            else if length (raw_data ?s) > 20 then 0.1 else 0)
                         + (if length ntext > 200 then 0.1 else 0)
                         + (if length (insights ?s) \<ge> 3 then 0.1 else 0)
                         + (if charts ?s \<noteq> [] then 0.1 else 0)
                         + (if analysis_type ?s = ''trend_analysis''
                               \<or> analysis_type ?s = ''summary'' then 0.05 else 0)))\<rparr>), t)"
    by blast
  from n nar have nt: "ntext = ''No relevant data found for analysis.''" by simp
  have "calculate_confidence ?s t = (Inr (?s\<lparr>confidence := 0.5\<rparr>), t)"
    using c unfolding nt by simp
  with reach show ?thesis by auto
qed

section \<open>The length of insights and recommendations\<close>

text \<open>
  C8. Insights and recommendations are meant to hold at most 5 items. A run in which
  Retrieval finds nothing and Generation answers every prompt with a JSON array of six
  strings ends with six insights and six recommendations: the parsed list is stored as
  it is, and only the fallback paths cut to five.
\<close>

theorem insights_not_capped:
  "fst (process_analytics_query (stub_env six_items) ''sales'' None []) =
     Inr \<lparr>r_query = ''sales'',
          r_analysis_type = Some ''general'',
          r_analysis = PStr ''No relevant data found for analysis.'',
          r_insights = [PStr ''a'', PStr ''b'', PStr ''c'', PStr ''d'', PStr ''e'', PStr ''f''],
          r_charts = [],
          r_recommendations
            = [PStr ''a'', PStr ''b'', PStr ''c'', PStr ''d'', PStr ''e'', PStr ''f''],
          r_confidence = 0.6,
          r_data_points = 0,
          r_error = []\<rparr>
   \<and> length [PStr ''a'', PStr ''b'', PStr ''c'', PStr ''d'', PStr ''e'', PStr ''f''] = 6
   \<and> length (extract_insights_fallback analysis) \<le> 5
   \<and> length (recommendations_fallback response) \<le> 5"
proof -
  from stub_run [OF stub_ok_facts(1) stub_six_facts] obtain t where
    run: "ainvoke (stub_env six_items) (initial_state ''sales'' None) []
        = (Inr ((initial_state ''sales'' None)\<lparr>analysis_type := ''general'', raw_data := [],
                   processed_data := no_data_result,
                   insights := [PStr ''a'', PStr ''b'', PStr ''c'', PStr ''d'', PStr ''e'', PStr ''f''],
                   charts := [],
                   recommendations := [PStr ''a'', PStr ''b'', PStr ''c'', PStr ''d'', PStr ''e'', PStr ''f''],
                   confidence := confidence_spec 0 36
                     (length [PStr ''a'', PStr ''b'', PStr ''c'', PStr ''d'', PStr ''e'', PStr ''f''])
                     False ''general''\<rparr>,
                ClassifyQuery # normal_path), t)"
    by blast
  have c: "confidence_spec 0 36
             (length [PStr ''a'', PStr ''b'', PStr ''c'', PStr ''d'', PStr ''e'', PStr ''f''])
             False ''general'' = 0.6"
    by (simp add: confidence_spec_def clamp01_def)
  have a: "fst (process_analytics_query (stub_env six_items) ''sales'' None []) =
     Inr \<lparr>r_query = ''sales'',
          r_analysis_type = Some ''general'',
          r_analysis = PStr ''No relevant data found for analysis.'',
          r_insights = [PStr ''a'', PStr ''b'', PStr ''c'', PStr ''d'', PStr ''e'', PStr ''f''],
          r_charts = [],
          r_recommendations
            = [PStr ''a'', PStr ''b'', PStr ''c'', PStr ''d'', PStr ''e'', PStr ''f''],
          r_confidence = 0.6,
          r_data_points = 0,
          r_error = []\<rparr>"
    unfolding process_analytics_query_def run c
    by (simp add: initial_state_def dict_get_def no_data_result_def)
  have b: "length (extract_insights_fallback analysis) \<le> 5"
    by (simp add: extract_insights_fallback_def)
  have d: "length (recommendations_fallback response) \<le> 5"
    by (simp add: recommendations_fallback_def)
  from a b d show ?thesis by simp
qed

section \<open>Empty data\<close>




section \<open>CreateVisualizations\<close>

text \<open>
  C7. CreateVisualizations sets the empty chart and calls no collaborator when the
  analysis type is neither trend\_analysis nor comparison (whatever raw\_data holds) or
  when raw\_data is empty. Otherwise it calls the Chart collaborator exactly once, with
  the query and one synthetic table document that carries raw\_data, and stores what the
  call returns; when the call fails the stage records the error and leaves the chart as
  it was. In a run the chart is empty on entry to the stage, so a failed call leaves
  the empty chart.
\<close>

theorem create_visualizations_gate:
  "((raw_data s = [] \<or> analysis_type s \<notin> set [''trend_analysis'', ''comparison''])
      \<longrightarrow> create_visualizations env s t = (Inr (s\<lparr>charts := []\<rparr>), t))
   \<and> ((raw_data s \<noteq> [] \<and> analysis_type s \<in> set [''trend_analysis'', ''comparison''])
      \<longrightarrow> table_docs_of env (raw_data s) =
            [\<lparr>page_content = ''Table data: '' @ py_str env (PList (take 5 (raw_data s))),
              metadata = [(''content_type'', PStr ''table''),
                          (''table_data'', PList (raw_data s)),
                          (''page_number'', PInt 1)]\<rparr>]
        \<and> create_visualizations env s t =
            (case generate_chart_from_query env t (query s) (table_docs_of env (raw_data s)) of
               Inl e \<Rightarrow> (case e of Exn m \<Rightarrow>
                 (Inr (s\<lparr>error := ''Visualization creation failed: '' @ m\<rparr>),
                  t @ [ChartCall (query s) (table_docs_of env (raw_data s))]))
             | Inr chart_result \<Rightarrow>
                 (Inr (s\<lparr>charts := chart_result\<rparr>),
                  t @ [ChartCall (query s) (table_docs_of env (raw_data s))])))
   \<and> (run_to env ClassifyQuery (initial_state q a) t0 CreateVisualizations = Some (s, t)
      \<longrightarrow> charts s = [])
   \<and> ((charts s = []
        \<and> generate_chart_from_query env t (query s) (table_docs_of env (raw_data s)) = Inl e)
      \<longrightarrow> (\<exists>s'. fst (create_visualizations env s t) = Inr s' \<and> charts s' = []))"
proof -
  have skip: "create_visualizations env s t = (Inr (s\<lparr>charts := []\<rparr>), t)"
    if "raw_data s = [] \<or> analysis_type s \<notin> set [''trend_analysis'', ''comparison'']"
    using that by (rule create_visualizations_skip)
  have call: "create_visualizations env s t =
            (case generate_chart_from_query env t (query s) (table_docs_of env (raw_data s)) of
               Inl e \<Rightarrow> (case e of Exn m \<Rightarrow>
                 (Inr (s\<lparr>error := ''Visualization creation failed: '' @ m\<rparr>),
                  t @ [ChartCall (query s) (table_docs_of env (raw_data s))]))
             | Inr chart_result \<Rightarrow>
                 (Inr (s\<lparr>charts := chart_result\<rparr>),
                  t @ [ChartCall (query s) (table_docs_of env (raw_data s))]))"
    if "raw_data s \<noteq> [] \<and> analysis_type s \<in> set [''trend_analysis'', ''comparison'']"
    using that create_visualizations_call [of s env t] by blast
  have docs: "table_docs_of env (raw_data s) =
            [\<lparr>page_content = ''Table data: '' @ py_str env (PList (take 5 (raw_data s))),
              metadata = [(''content_type'', PStr ''table''),
                          (''table_data'', PList (raw_data s)),
                          (''page_number'', PInt 1)]\<rparr>]"
    by (simp add: table_docs_of_def)
  have entry: "charts s = []"
    if reach: "run_to env ClassifyQuery (initial_state q a) t0 CreateVisualizations = Some (s, t)"
  proof -
    have init: "charts (initial_state q a) = []" by (simp add: initial_state_def)
    show ?thesis
      by (rule run_to_invariant [where P = "\<lambda>s. charts s = []", OF _ init reach])
         (rule node_effect_charts)
  qed
  have fail: "\<exists>s'. fst (create_visualizations env s t) = Inr s' \<and> charts s' = []"
    if "charts s = []
        \<and> generate_chart_from_query env t (query s) (table_docs_of env (raw_data s)) = Inl e"
  proof (cases "raw_data s \<noteq> [] \<and> analysis_type s \<in> set [''trend_analysis'', ''comparison'']")
    case True
    from call [OF True] that show ?thesis by (cases e) simp
  next
    case False
    then have "raw_data s = [] \<or> analysis_type s \<notin> set [''trend_analysis'', ''comparison'']"
      by blast
    from skip [OF this] show ?thesis by simp
  qed
  from skip call docs entry fail show ?thesis by blast
qed

theorem create_visualizations_gate_witness:
  "analysis_type ((initial_state ''sales'' None)\<lparr>analysis_type := ''summary'',
       raw_data := sample_rows\<rparr>) \<notin> set [''trend_analysis'', ''comparison'']
   \<and> create_visualizations (stub_env ''ok'')
        ((initial_state ''sales'' None)\<lparr>analysis_type := ''summary'', raw_data := sample_rows\<rparr>) []
      = (Inr ((initial_state ''sales'' None)\<lparr>analysis_type := ''summary'',
                raw_data := sample_rows, charts := []\<rparr>), [])
   \<and> create_visualizations
        ((stub_env ''ok'')\<lparr>generate_chart_from_query := (\<lambda>t q docs. Inl (Exn ''render''))\<rparr>)
        ((initial_state ''a vs b'' None)\<lparr>analysis_type := ''comparison'',
            raw_data := sample_rows\<rparr>) []
      = (Inr ((initial_state ''a vs b'' None)\<lparr>analysis_type := ''comparison'',
                raw_data := sample_rows, error := ''Visualization creation failed: render''\<rparr>),
         [ChartCall ''a vs b''
            [\<lparr>page_content = ''Table data: <value>'',
              metadata = [(''content_type'', PStr ''table''),
                          (''table_data'', PList sample_rows),
                          (''page_number'', PInt 1)]\<rparr>]])
   \<and> (\<exists>t. run_to (stub_env ''ok'') ClassifyQuery (initial_state ''sales'' None) []
              CreateVisualizations
            = Some ((initial_state ''sales'' None)\<lparr>analysis_type := ''general'', raw_data := [],
                      processed_data := no_data_result, insights := []\<rparr>, t))
   \<and> charts ((initial_state ''sales'' None)\<lparr>analysis_type := ''general'', raw_data := [],
                      processed_data := no_data_result, insights := []\<rparr>) = []"
proof -
  let ?s1 = "(initial_state ''sales'' None)\<lparr>analysis_type := ''summary'',
                raw_data := sample_rows\<rparr>"
  let ?env2 = "(stub_env ''ok'')\<lparr>generate_chart_from_query :=
                  (\<lambda>t q docs. Inl (Exn ''render''))\<rparr>"
  let ?s2 = "(initial_state ''a vs b'' None)\<lparr>analysis_type := ''comparison'',
                raw_data := sample_rows\<rparr>"
  let ?s3 = "(initial_state ''sales'' None)\<lparr>analysis_type := ''general'', raw_data := [],
                      processed_data := no_data_result, insights := []\<rparr>"
  have h1: "analysis_type ?s1 \<notin> set [''trend_analysis'', ''comparison'']" by simp
  from create_visualizations_gate [of ?s1 "stub_env ''ok''" "[]"] h1
  have a: "create_visualizations (stub_env ''ok'') ?s1 [] = (Inr (?s1\<lparr>charts := []\<rparr>), [])"
    by blast
  have h2: "raw_data ?s2 \<noteq> [] \<and> analysis_type ?s2 \<in> set [''trend_analysis'', ''comparison'']"
    by (simp add: sample_rows_def)
  have q2: "query ?s2 = ''a vs b''" by (simp add: initial_state_def)
  have p2: "py_str ?env2 = (\<lambda>v. ''<value>'')" by (simp add: stub_env_def)
  from create_visualizations_gate [of ?s2 ?env2 "[]"] h2
  have b0: "table_docs_of ?env2 (raw_data ?s2) =
            [\<lparr>page_content = ''Table data: '' @ py_str ?env2 (PList (take 5 (raw_data ?s2))),
              metadata = [(''content_type'', PStr ''table''),
                          (''table_data'', PList (raw_data ?s2)),
                          (''page_number'', PInt 1)]\<rparr>]"
    and b1: "create_visualizations ?env2 ?s2 [] =
            (case generate_chart_from_query ?env2 [] (query ?s2)
                    (table_docs_of ?env2 (raw_data ?s2)) of
               Inl e \<Rightarrow> (case e of Exn m \<Rightarrow>
                 (Inr (?s2\<lparr>error := ''Visualization creation failed: '' @ m\<rparr>),
                  [] @ [ChartCall (query ?s2) (table_docs_of ?env2 (raw_data ?s2))]))
             | Inr chart_result \<Rightarrow>
                 (Inr (?s2\<lparr>charts := chart_result\<rparr>),
                  [] @ [ChartCall (query ?s2) (table_docs_of ?env2 (raw_data ?s2))]))"
    by blast+
  have b: "create_visualizations ?env2 ?s2 []
      = (Inr (?s2\<lparr>error := ''Visualization creation failed: render''\<rparr>),
         [ChartCall ''a vs b''
            [\<lparr>page_content = ''Table data: <value>'',
              metadata = [(''content_type'', PStr ''table''),
                          (''table_data'', PList sample_rows),
                          (''page_number'', PInt 1)]\<rparr>]])"
    unfolding b1 b0 q2 p2 by simp
  from stub_run [OF stub_ok_facts] obtain t where
    reach: "run_to (stub_env ''ok'') ClassifyQuery (initial_state ''sales'' None) []
              CreateVisualizations = Some (?s3, t)"
    by blast
  from create_visualizations_gate [of ?s3 "stub_env ''ok''" t "''sales''" None "[]"] reach
  have c: "charts ?s3 = []" by blast
  from h1 a b reach c show ?thesis by blast
qed

section \<open>The routines of ProcessData\<close>




end
